theory Spec2Isabelle
  imports Main "HOL-Library.Word" "HOL-Library.Monad_Syntax"
begin

unbundle bit_operations_syntax

section \<open>Errors\<close>

text \<open>
  The Go code returns the error values of the configuration library and of
  \<^verbatim>\<open>text/template\<close> unchanged. The model tags an error with the step it
  comes from: unpacking the configuration, parsing a template, executing a template.
  \<open>Unsupported\<close> marks input that Go accepts and that lies outside the fragment of the
  standard library embedded here; no declared template or layout reaches it.
\<close>

datatype error =
    ConfigError string
  | TemplateError string
  | RenderError string
  | Unsupported string

section \<open>Decimal printing\<close>

definition digit_char :: "nat \<Rightarrow> char" where
  "digit_char d = ''0123456789'' ! d"

fun digits :: "nat \<Rightarrow> string" where
  "digits n = (if n < 10 then [digit_char n] else digits (n div 10) @ [digit_char (n mod 10)])"

declare digits.simps [simp del]

text \<open>\<^verbatim>\<open>strconv.Itoa\<close>, which is also how \<^verbatim>\<open>%d\<close> and the template engine print an int.\<close>

definition Itoa :: "int \<Rightarrow> string" where
  "Itoa i = (if i < 0 then CHR ''-'' # digits (nat (- i)) else digits (nat i))"

text \<open>\<^verbatim>\<open>appendInt\<close> of package time: the decimal form, zero-padded to a width.\<close>

definition appendInt :: "int \<Rightarrow> nat \<Rightarrow> string" where
  "appendInt x width =
     (let s = digits (nat \<bar>x\<bar>)
      in (if x < 0 then ''-'' else '''') @ replicate (width - length s) (CHR ''0'') @ s)"

definition newline :: char where
  "newline = CHR 0x0A"

definition nlfree :: "string \<Rightarrow> bool" where
  "nlfree s = list_all (\<lambda>c. c \<noteq> newline) s"

section \<open>Package time\<close>

text \<open>
  A \<^verbatim>\<open>time.Time\<close> is an instant together with a location. The instant is kept as
  the number of nanoseconds since the Unix epoch; the location is the offset, in seconds
  east of UTC, that is in force at a given Unix second.
\<close>

record Time =
  instant :: int
  location :: "int \<Rightarrow> int"

definition Minute :: int where
  "Minute = 60 * 1000000000"

definition Add :: "Time \<Rightarrow> int \<Rightarrow> Time" where
  "Add t d = t\<lparr>instant := instant t + d\<rparr>"

definition Unix :: "Time \<Rightarrow> int" where
  "Unix t = instant t div 1000000000"

text \<open>\<^verbatim>\<open>UnixNano\<close> is an int64 and wraps outside the years 1678 to 2262.\<close>

definition UnixNano :: "Time \<Rightarrow> 64 word" where
  "UnixNano t = word_of_int (instant t)"

definition UTC :: "Time \<Rightarrow> Time" where
  "UTC t = t\<lparr>location := (\<lambda>_. 0)\<rparr>"

definition localSeconds :: "Time \<Rightarrow> int" where
  "localSeconds t = Unix t + location t (Unix t)"

text \<open>Hour, minute and second of the wall clock in the time's location.\<close>

definition Time_Clock :: "Time \<Rightarrow> int \<times> int \<times> int" where
  "Time_Clock t =
     (let s = localSeconds t mod 86400
      in (s div 3600, (s mod 3600) div 60, s mod 60))"

text \<open>Year, month and day of the proleptic Gregorian calendar, from the day number.\<close>

definition civil :: "int \<Rightarrow> int \<times> int \<times> int" where
  "civil days =
     (let z = days + 719468;
          era = z div 146097;
          doe = z mod 146097;
          yoe = (doe - doe div 1460 + doe div 36524 - doe div 146096) div 365;
          doy = doe - (365 * yoe + yoe div 4 - yoe div 100);
          mp = (5 * doy + 2) div 153;
          d = doy - (153 * mp + 2) div 5 + 1;
          m = (if mp < 10 then mp + 3 else mp - 9);
          y = yoe + era * 400
      in ((if m \<le> 2 then y + 1 else y), m, d))"

definition Time_Date :: "Time \<Rightarrow> int \<times> int \<times> int" where
  "Time_Date t = civil (localSeconds t div 86400)"

definition Time_Year :: "Time \<Rightarrow> int" where
  "Time_Year t = fst (Time_Date t)"

definition longMonthNames :: "string list" where
  "longMonthNames = [''January'', ''February'', ''March'', ''April'', ''May'', ''June'',
     ''July'', ''August'', ''September'', ''October'', ''November'', ''December'']"

text \<open>\<^verbatim>\<open>Month.String\<close>\<close>

definition Month_String :: "int \<Rightarrow> string" where
  "Month_String m =
     (if 1 \<le> m \<and> m \<le> 12 then longMonthNames ! nat (m - 1)
      else ''%!Month('' @ Itoa m @ '')'')"

subsection \<open>Layouts\<close>

text \<open>
  \<^verbatim>\<open>Time.Format\<close> scans the layout for the reference-time chunks. The chunks
  embedded are those written with the digits 1 to 6 and the month name; a layout with a
  weekday, a zone, AM/PM, a space-padded field, a day of the year or fractional seconds
  is reported as outside the model (\<open>None\<close>).
\<close>

datatype std =
    stdLongMonth | stdMonth | stdNumMonth | stdZeroMonth
  | stdDay | stdZeroDay
  | stdHour | stdHour12 | stdZeroHour12
  | stdMinute | stdZeroMinute
  | stdSecond | stdZeroSecond
  | stdLongYear | stdYear

datatype chunk = Std std nat | Literal | NotModelled

definition hasPrefix :: "string \<Rightarrow> string \<Rightarrow> bool" where
  "hasPrefix s p = (take (length p) s = p)"

definition nextStdChunk :: "string \<Rightarrow> chunk" where
  "nextStdChunk s =
     (if hasPrefix s ''January'' then Std stdLongMonth 7
      else if hasPrefix s ''Jan'' then Std stdMonth 3
      else if hasPrefix s ''Mon'' \<or> hasPrefix s ''MST'' then NotModelled
      else if hasPrefix s ''01'' then Std stdZeroMonth 2
      else if hasPrefix s ''02'' then Std stdZeroDay 2
      else if hasPrefix s ''03'' then Std stdZeroHour12 2
      else if hasPrefix s ''04'' then Std stdZeroMinute 2
      else if hasPrefix s ''05'' then Std stdZeroSecond 2
      else if hasPrefix s ''06'' then Std stdYear 2
      else if hasPrefix s ''002'' then NotModelled
      else if hasPrefix s ''15'' then Std stdHour 2
      else if hasPrefix s ''1'' then Std stdNumMonth 1
      else if hasPrefix s ''2006'' then Std stdLongYear 4
      else if hasPrefix s ''2'' then Std stdDay 1
      else if hasPrefix s ''_2'' \<or> hasPrefix s ''__2'' then NotModelled
      else if hasPrefix s ''3'' then Std stdHour12 1
      else if hasPrefix s ''4'' then Std stdMinute 1
      else if hasPrefix s ''5'' then Std stdSecond 1
      else if hasPrefix s ''PM'' \<or> hasPrefix s ''pm'' then NotModelled
      else if hasPrefix s ''-07'' \<or> hasPrefix s ''Z07'' then NotModelled
      else if hasPrefix s ''.0'' \<or> hasPrefix s ''.9'' \<or> hasPrefix s '',0'' \<or> hasPrefix s '',9''
        then NotModelled
      else Literal)"

definition hour12 :: "int \<Rightarrow> int" where
  "hour12 h = (if h mod 12 = 0 then 12 else h mod 12)"

definition appendStd :: "Time \<Rightarrow> std \<Rightarrow> string" where
  "appendStd t c =
     (case (Time_Date t, Time_Clock t) of ((year, month, day), (hour, minute, second)) \<Rightarrow>
        (case c of
           stdLongMonth \<Rightarrow> Month_String month
         | stdMonth \<Rightarrow> take 3 (Month_String month)
         | stdNumMonth \<Rightarrow> appendInt month 0
         | stdZeroMonth \<Rightarrow> appendInt month 2
         | stdDay \<Rightarrow> appendInt day 0
         | stdZeroDay \<Rightarrow> appendInt day 2
         | stdHour \<Rightarrow> appendInt hour 2
         | stdHour12 \<Rightarrow> appendInt (hour12 hour) 0
         | stdZeroHour12 \<Rightarrow> appendInt (hour12 hour) 2
         | stdMinute \<Rightarrow> appendInt minute 0
         | stdZeroMinute \<Rightarrow> appendInt minute 2
         | stdSecond \<Rightarrow> appendInt second 0
         | stdZeroSecond \<Rightarrow> appendInt second 2
         | stdLongYear \<Rightarrow> appendInt year 4
         | stdYear \<Rightarrow> appendInt (year mod 100) 2))"

text \<open>
  The scan over the layout. The first argument counts the characters of the chunk just
  emitted that are still to be skipped.
\<close>

fun appendFormat :: "Time \<Rightarrow> nat \<Rightarrow> string \<Rightarrow> string option" where
  "appendFormat t k [] = Some []"
| "appendFormat t (Suc k) (c # cs) = appendFormat t k cs"
| "appendFormat t 0 (c # cs) =
     (case nextStdChunk (c # cs) of
        NotModelled \<Rightarrow> None
      | Literal \<Rightarrow> map_option (\<lambda>r. c # r) (appendFormat t 0 cs)
      | Std s n \<Rightarrow> map_option (\<lambda>r. appendStd t s @ r) (appendFormat t (n - 1) cs))"

definition Format :: "Time \<Rightarrow> string \<Rightarrow> string option" where
  "Format t layout = appendFormat t 0 layout"

section \<open>Package net\<close>

text \<open>A \<^verbatim>\<open>net.IP\<close> is a slice of bytes, of length 4 or 16 when it is an address.\<close>

type_synonym IP = "8 word list"

definition v4InV6Prefix :: IP where
  "v4InV6Prefix = [0, 0, 0, 0, 0, 0, 0, 0, 0, 0, 0xff, 0xff]"

definition net_IPv4 :: "8 word \<Rightarrow> 8 word \<Rightarrow> 8 word \<Rightarrow> 8 word \<Rightarrow> IP" where
  "net_IPv4 a b c d = v4InV6Prefix @ [a, b, c, d]"

definition To4 :: "IP \<Rightarrow> IP option" where
  "To4 ip =
     (if length ip = 4 then Some ip
      else if length ip = 16 \<and> take 12 ip = v4InV6Prefix then Some (drop 12 ip)
      else None)"

definition ubtoa :: "8 word \<Rightarrow> string" where
  "ubtoa b = digits (unat b)"

text \<open>
  \<^verbatim>\<open>IP.String\<close>: the nil address prints as \<^verbatim>\<open><nil>\<close>, an IPv4 address in
  dotted decimal. The IPv6 and the malformed forms are outside the model (\<open>None\<close>).
\<close>

definition IP_String :: "IP \<Rightarrow> string option" where
  "IP_String ip =
     (if ip = [] then Some ''<nil>''
      else case To4 ip of
        Some [a, b, c, d] \<Rightarrow> Some (ubtoa a @ ''.'' @ ubtoa b @ ''.'' @ ubtoa c @ ''.'' @ ubtoa d)
      | _ \<Rightarrow> None)"

section \<open>The process environment: random source and wall clock\<close>

text \<open>
  \<^verbatim>\<open>math/rand\<close> and \<^verbatim>\<open>time.Now\<close> belong to the Go standard library. The global
  random source is the infinite sequence of values it is still going to produce, the wall
  clock the infinite sequence of its coming readings, so that every run of the program is
  one choice of the two sequences. \<open>seeded\<close> is the sequence the source produces after
  \<^verbatim>\<open>rand.Seed\<close> with a given seed, \<open>zone\<close> the local time zone.

  The functions of \<^verbatim>\<open>math/rand\<close> follow their documented contract: each call
  consumes a value of the source and returns it reduced to the range asked for, and
  \<^verbatim>\<open>Intn\<close> and \<^verbatim>\<open>Int63n\<close> panic (\<open>None\<close>) when the bound is not positive.
  In every option-valued function below \<open>None\<close> stands for a call that does not return
  a value.
\<close>

record world =
  source :: "nat \<Rightarrow> nat"
  seeded :: "64 word \<Rightarrow> nat \<Rightarrow> nat"
  clock :: "nat \<Rightarrow> int"
  zone :: "int \<Rightarrow> int"

definition draw :: "world \<Rightarrow> nat \<times> world" where
  "draw w = (source w 0, w\<lparr>source := (\<lambda>i. source w (Suc i))\<rparr>)"

definition Seed :: "64 word \<Rightarrow> world \<Rightarrow> world" where
  "Seed s w = w\<lparr>source := seeded w s\<rparr>"

definition Intn :: "int \<Rightarrow> world \<Rightarrow> (int \<times> world) option" where
  "Intn n w =
     (if n \<le> 0 then None
      else case draw w of (r, w') \<Rightarrow> Some (int r mod n, w'))"

definition Int63n :: "int \<Rightarrow> world \<Rightarrow> (int \<times> world) option" where
  "Int63n n w =
     (if n \<le> 0 then None
      else case draw w of (r, w') \<Rightarrow> Some (int r mod n, w'))"

definition Uint32 :: "world \<Rightarrow> 32 word \<times> world" where
  "Uint32 w = (case draw w of (r, w') \<Rightarrow> (word_of_nat r, w'))"

text \<open>\<^verbatim>\<open>rand.Read\<close> on a buffer of the given length.\<close>

fun Read :: "nat \<Rightarrow> world \<Rightarrow> 8 word list \<times> world" where
  "Read 0 w = ([], w)"
| "Read (Suc n) w =
     (case draw w of (r, w') \<Rightarrow>
        (case Read n w' of (bs, w'') \<Rightarrow> (word_of_nat r # bs, w'')))"

definition Now :: "world \<Rightarrow> Time \<times> world" where
  "Now w = (\<lparr>instant = clock w 0, location = zone w\<rparr>, w\<lparr>clock := (\<lambda>i. clock w (Suc i))\<rparr>)"

section \<open>Package random\<close>

definition IPv4 :: "world \<Rightarrow> IP \<times> world" where
  "IPv4 w =
     (case Uint32 w of (u32, w') \<Rightarrow>
        (net_IPv4 (ucast (u32 AND 0xff)) (ucast (drop_bit 8 u32 AND 0xff))
           (ucast (drop_bit 16 u32 AND 0xff)) (ucast (drop_bit 24 u32 AND 0xff)), w'))"

definition Port :: "world \<Rightarrow> (int \<times> world) option" where
  "Port w = Intn 65536 w"

definition Randomtime :: "world \<Rightarrow> (string \<times> world) option" where
  "Randomtime w0 = do {
     let (seedTime, w) = Now w0;
     let w = Seed (UnixNano seedTime) w;
     let (now, w) = Now w;
     let duration = 20 * Minute;
     let lowerBound = Add now (- duration);
     (r, w) \<leftarrow> Int63n (sint (UnixNano now - UnixNano lowerBound)) w;
     let randomTimestamp = Add lowerBound r;
     formattedTime \<leftarrow> Format randomTimestamp ''15:04:05'';
     Some (formattedTime, w)
   }"

section \<open>The generator registry\<close>

text \<open>
  Modelled from the spec: package \<^verbatim>\<open>generator\<close>, with \<^verbatim>\<open>Register\<close> and the
  lookup of a constructor, is not among the source files. The spec describes a mapping
  from format identifier to constructor with unique keys, in which registering records or
  overwrites the mapping and a lookup returns the constructor and whether it was found.
\<close>

type_synonym 'c registry = "string \<rightharpoonup> 'c"

definition Register :: "string \<Rightarrow> 'c \<Rightarrow> 'c registry \<Rightarrow> 'c registry" where
  "Register ident ctor reg = reg(ident \<mapsto> ctor)"

definition Lookup :: "'c registry \<Rightarrow> string \<Rightarrow> 'c option" where
  "Lookup reg ident = reg ident"

text \<open>The registry after the registrations of process start, in their order.\<close>

definition registerAll :: "(string \<times> 'c) list \<Rightarrow> 'c registry" where
  "registerAll regs = foldl (\<lambda>reg (ident, ctor). Register ident ctor reg) Map.empty regs"

section \<open>Package text/template\<close>

text \<open>
  The templates of the generators are Go strings that \<^verbatim>\<open>text/template\<close> parses
  at construction and executes against the generator at every call. The embedding keeps
  the strings as they are in the source and carries the part of the engine they use:
  text, field chains with method calls and arguments, string constants, the dot, and
  \<^verbatim>\<open>{{with}} ... {{end}}\<close>. What Go accepts beyond that (pipelines, variables,
  functions, the other control structures, trim markers, comments) is answered with
  \<open>Unsupported\<close>.
\<close>

subsection \<open>Values\<close>

text \<open>
  The values a template sees through reflection: a struct is the list of its exported
  fields, in declaration order. \<open>VOpaque\<close> is a value the templates can reach and whose
  printed form is not modelled.
\<close>

datatype gvalue =
    VString string
  | VInt int
  | VIP IP
  | VTime Time
  | VStruct "(string \<times> gvalue) list"
  | VOpaque

subsection \<open>Parsing\<close>

datatype operand = DotNode | FieldNode "string list" | StringNode string

datatype node =
    TextNode string
  | ActionNode "operand list"
  | WithNode "operand list" "node list"

datatype Template = Template (templateName: string) (Tree: "node list")

datatype item = ItemText string | ItemAction string

datatype token = TokText string | TokAction "operand list" | TokWith "operand list" | TokEnd

definition bindE :: "error + 'a \<Rightarrow> ('a \<Rightarrow> error + 'b) \<Rightarrow> error + 'b" where
  "bindE m f = (case m of Inl e \<Rightarrow> Inl e | Inr x \<Rightarrow> f x)"

fun mapE :: "('a \<Rightarrow> error + 'b) \<Rightarrow> 'a list \<Rightarrow> error + 'b list" where
  "mapE f [] = Inr []"
| "mapE f (x # xs) = bindE (f x) (\<lambda>y. bindE (mapE f xs) (\<lambda>ys. Inr (y # ys)))"

definition textItem :: "string \<Rightarrow> item list" where
  "textItem acc = (if acc = [] then [] else [ItemText (rev acc)])"

text \<open>
  The lexer cuts the source at the delimiters. The first argument tells whether the scan
  is inside an action, the second holds the characters read since the last delimiter, in
  reverse.
\<close>

fun lexItems :: "bool \<Rightarrow> string \<Rightarrow> string \<Rightarrow> error + item list" where
  "lexItems inside acc [] =
     (if inside then Inl (TemplateError ''unclosed action'') else Inr (textItem acc))"
| "lexItems inside acc [c] = lexItems inside (c # acc) []"
| "lexItems inside acc (c # d # cs) =
     (if \<not> inside \<and> c = CHR ''{'' \<and> d = CHR ''{''
        then bindE (lexItems True [] cs) (\<lambda>r. Inr (textItem acc @ r))
      else if inside \<and> c = CHR ''}'' \<and> d = CHR ''}''
        then bindE (lexItems False [] cs) (\<lambda>r. Inr (ItemAction (rev acc) # r))
      else lexItems inside (c # acc) (d # cs))"

text \<open>The words of an action, separated by spaces.\<close>

fun splitOn :: "char \<Rightarrow> string \<Rightarrow> string \<Rightarrow> string list" where
  "splitOn sep acc [] = [rev acc]"
| "splitOn sep acc (c # cs) =
     (if c = sep then rev acc # splitOn sep [] cs else splitOn sep (c # acc) cs)"

definition words :: "string \<Rightarrow> string list" where
  "words s = filter (\<lambda>w. w \<noteq> []) (splitOn (CHR '' '') [] s)"

definition isAlphaNumeric :: "char \<Rightarrow> bool" where
  "isAlphaNumeric c =
     (let n = (of_char c :: nat)
      in c = CHR ''_'' \<or> (48 \<le> n \<and> n \<le> 57) \<or> (65 \<le> n \<and> n \<le> 90) \<or> (97 \<le> n \<and> n \<le> 122))"

definition isIdentifier :: "string \<Rightarrow> bool" where
  "isIdentifier s = (s \<noteq> [] \<and> list_all isAlphaNumeric s)"

definition isQuoted :: "string \<Rightarrow> bool" where
  "isQuoted w =
     (2 \<le> length w \<and> hd w = CHR 0x22 \<and> last w = CHR 0x22
      \<and> list_all (\<lambda>c. c \<noteq> CHR 0x22 \<and> c \<noteq> CHR 0x5C) (butlast (tl w)))"

definition parseOperand :: "string \<Rightarrow> error + operand" where
  "parseOperand w =
     (if w = ''.'' then Inr DotNode
      else if hd w = CHR ''.'' \<and> list_all isIdentifier (splitOn (CHR ''.'') [] (tl w))
        then Inr (FieldNode (splitOn (CHR ''.'') [] (tl w)))
      else if isQuoted w then Inr (StringNode (butlast (tl w)))
      else Inl (Unsupported w))"

definition parseAction :: "string \<Rightarrow> error + token" where
  "parseAction a =
     (case words a of
        [] \<Rightarrow> Inl (TemplateError ''missing value for command'')
      | w # ws \<Rightarrow>
          if w = ''end'' then
            (if ws = [] then Inr TokEnd else Inl (TemplateError ''unexpected token in end''))
          else if w = ''with'' then
            (if ws = [] then Inl (TemplateError ''missing value for with'')
             else bindE (mapE parseOperand ws) (\<lambda>ops. Inr (TokWith ops)))
          else bindE (mapE parseOperand (w # ws)) (\<lambda>ops. Inr (TokAction ops)))"

definition parseItem :: "item \<Rightarrow> error + token" where
  "parseItem i = (case i of ItemText s \<Rightarrow> Inr (TokText s) | ItemAction a \<Rightarrow> parseAction a)"

text \<open>
  The tree is built over a stack of the \<^verbatim>\<open>with\<close> blocks that are open, each with
  the nodes that precede it at its level; \<open>acc\<close> holds the nodes of the current level in
  reverse.
\<close>

fun build :: "token list \<Rightarrow> (operand list \<times> node list) list \<Rightarrow> node list \<Rightarrow> error + node list"
  where
  "build [] [] acc = Inr (rev acc)"
| "build [] (frame # stack) acc = Inl (TemplateError ''unexpected EOF'')"
| "build (TokText s # ts) stack acc = build ts stack (TextNode s # acc)"
| "build (TokAction ops # ts) stack acc = build ts stack (ActionNode ops # acc)"
| "build (TokWith ops # ts) stack acc = build ts ((ops, acc) # stack) []"
| "build (TokEnd # ts) [] acc = Inl (TemplateError ''unexpected {{end}}'')"
| "build (TokEnd # ts) ((ops, outer) # stack) acc = build ts stack (WithNode ops (rev acc) # outer)"

text \<open>\<^verbatim>\<open>template.New(name).Funcs(...).Parse(text)\<close>\<close>

definition Parse :: "string \<Rightarrow> string \<Rightarrow> error + Template" where
  "Parse nm src =
     bindE (lexItems False [] src) (\<lambda>items.
     bindE (mapE parseItem items) (\<lambda>tokens.
     bindE (build tokens [] []) (\<lambda>nodes.
     Inr (Template nm nodes))))"

subsection \<open>Execution\<close>

text \<open>
  A name applied to a receiver: a field of a struct, or one of the methods \<^verbatim>\<open>UTC\<close>,
  \<^verbatim>\<open>Unix\<close>, \<^verbatim>\<open>Year\<close> and \<^verbatim>\<open>Format\<close> of a time. A name the receiver does
  not have fails the execution.
\<close>

definition evalField :: "gvalue \<Rightarrow> string \<Rightarrow> gvalue list \<Rightarrow> error + gvalue" where
  "evalField receiver nm args =
     (case receiver of
        VStruct fs \<Rightarrow>
          (case map_of fs nm of
             None \<Rightarrow> Inl (RenderError (''can't evaluate field '' @ nm))
           | Some v \<Rightarrow>
               if args = [] then Inr v
               else Inl (RenderError (nm @ '' has arguments but cannot be invoked as function'')))
      | VTime t \<Rightarrow>
          if nm = ''UTC'' then
            (if args = [] then Inr (VTime (UTC t))
             else Inl (RenderError ''wrong number of args for UTC''))
          else if nm = ''Unix'' then
            (if args = [] then Inr (VInt (Unix t))
             else Inl (RenderError ''wrong number of args for Unix''))
          else if nm = ''Year'' then
            (if args = [] then Inr (VInt (Time_Year t))
             else Inl (RenderError ''wrong number of args for Year''))
          else if nm = ''Format'' then
            (case args of
               [VString layout] \<Rightarrow>
                 (case Format t layout of
                    Some s \<Rightarrow> Inr (VString s)
                  | None \<Rightarrow> Inl (Unsupported layout))
             | _ \<Rightarrow> Inl (RenderError ''wrong arguments for Format''))
          else Inl (Unsupported nm)
      | VIP ip \<Rightarrow> Inl (Unsupported nm)
      | VOpaque \<Rightarrow> Inl (Unsupported nm)
      | _ \<Rightarrow> Inl (RenderError (''can't evaluate field '' @ nm)))"

text \<open>A chain of names without arguments, from left to right.\<close>

fun evalFieldChain :: "gvalue \<Rightarrow> string list \<Rightarrow> error + gvalue" where
  "evalFieldChain receiver [] = Inr receiver"
| "evalFieldChain receiver (nm # nms) =
     bindE (evalField receiver nm []) (\<lambda>v. evalFieldChain v nms)"

definition evalArg :: "gvalue \<Rightarrow> operand \<Rightarrow> error + gvalue" where
  "evalArg dot operand =
     (case operand of
        DotNode \<Rightarrow> Inr dot
      | FieldNode nms \<Rightarrow> evalFieldChain dot nms
      | StringNode s \<Rightarrow> Inr (VString s))"

text \<open>
  A command is an operand followed by its arguments. The arguments go to the last name
  of a field chain; the dot and a constant take none.
\<close>

definition evalCommand :: "gvalue \<Rightarrow> operand list \<Rightarrow> error + gvalue" where
  "evalCommand dot cmd =
     (case cmd of
        [] \<Rightarrow> Inl (RenderError ''empty command'')
      | FieldNode nms # args \<Rightarrow>
          (if nms = [] then Inl (RenderError ''empty field chain'')
           else bindE (evalFieldChain dot (butlast nms)) (\<lambda>receiver.
                bindE (mapE (evalArg dot) args) (\<lambda>vs.
                evalField receiver (last nms) vs)))
      | operand # args \<Rightarrow>
          (if args = [] then evalArg dot operand
           else Inl (RenderError ''can't give argument to non-function'')))"

definition printValue :: "gvalue \<Rightarrow> error + string" where
  "printValue v =
     (case v of
        VString s \<Rightarrow> Inr s
      | VInt i \<Rightarrow> Inr (Itoa i)
      | VIP ip \<Rightarrow> (case IP_String ip of Some s \<Rightarrow> Inr s | None \<Rightarrow> Inl (Unsupported ''IP''))
      | VTime t \<Rightarrow> Inl (Unsupported ''Time'')
      | VStruct fs \<Rightarrow> Inl (Unsupported ''struct'')
      | VOpaque \<Rightarrow> Inl (Unsupported ''value''))"

text \<open>The truth of a value, as \<^verbatim>\<open>with\<close> tests it: not the zero value of its type.\<close>

definition isTrue :: "gvalue \<Rightarrow> error + bool" where
  "isTrue v =
     (case v of
        VString s \<Rightarrow> Inr (s \<noteq> [])
      | VInt i \<Rightarrow> Inr (i \<noteq> 0)
      | VIP ip \<Rightarrow> Inr (ip \<noteq> [])
      | VTime t \<Rightarrow> Inr True
      | VStruct fs \<Rightarrow> Inr True
      | VOpaque \<Rightarrow> Inl (Unsupported ''value''))"

fun exec :: "gvalue \<Rightarrow> node \<Rightarrow> error + string"
  and execList :: "gvalue \<Rightarrow> node list \<Rightarrow> error + string" where
  "exec dot (TextNode s) = Inr s"
| "exec dot (ActionNode cmd) = bindE (evalCommand dot cmd) printValue"
| "exec dot (WithNode cmd body) =
     bindE (evalCommand dot cmd) (\<lambda>v.
     bindE (isTrue v) (\<lambda>b.
     if b then execList v body else Inr []))"
| "execList dot [] = Inr []"
| "execList dot (n # ns) =
     bindE (exec dot n) (\<lambda>s. bindE (execList dot ns) (\<lambda>r. Inr (s @ r)))"

text \<open>\<^verbatim>\<open>Template.Execute\<close>, with the buffer it writes to as the result.\<close>

definition Execute :: "Template \<Rightarrow> gvalue \<Rightarrow> error + string" where
  "Execute t data = execList data (Tree t)"

section \<open>What the generators share\<close>

text \<open>
  Indexing a Go array or slice panics outside its bounds.
\<close>

definition index :: "'a list \<Rightarrow> int \<Rightarrow> 'a option" where
  "index xs i = (if 0 \<le> i \<and> i < int (length xs) then Some (xs ! nat i) else None)"

text \<open>
  The configuration tree comes from the library \<^verbatim>\<open>go-ucfg\<close>, and the structure
  it is unpacked into is declared in a file that is not among the sources. A
  configuration is represented by what unpacking it yields: nothing, or the message of
  the error.
\<close>

datatype Config = Config (Unpack: "string option")

text \<open>
  The loop of the constructors over the declared templates: the template at position
  \<open>i\<close> is parsed under the name \<^verbatim>\<open>strconv.Itoa(i)\<close> and appended, and the
  first error ends the construction.
\<close>

fun parseTemplates :: "nat \<Rightarrow> string list \<Rightarrow> Template list \<Rightarrow> error + Template list" where
  "parseTemplates i [] ts = Inr ts"
| "parseTemplates i (v # vs) ts =
     (case Parse (Itoa (int i)) v of
        Inl err \<Rightarrow> Inl err
      | Inr t \<Rightarrow> parseTemplates (Suc i) vs (ts @ [t]))"

text \<open>The zero value of \<^verbatim>\<open>time.Time\<close>: January 1 of the year 1, 00:00:00 UTC.\<close>

definition zeroTime :: Time where
  "zeroTime = \<lparr>instant = - 62135596800 * 1000000000, location = (\<lambda>_. 0)\<rparr>"

section \<open>The Fortinet firewall generator\<close>

definition firewall_Name :: string where
  "firewall_Name = ''fortinet:firewall''"

definition eventUserTemplate :: string where
  \<open>eventUserTemplate =
     ''date={{.Date.UTC.Format "2006-01-02"}} time={{.Timestamp}} devname="{{.DevName}}" devid="{{.DevId}}" logid="{{.LogId}}" type="event" subtype="user" level="{{.Level}}" vd="{{.Vd}}" eventtime={{.Date.Unix}} tz="{{.Timezone}}" logdesc="FSSO logon authentication status" srcip={{.SrcIp}} user="{{.User}}" server="{{.Server}}" action="FSSO-logon" msg="FSSO-logon event from FSSO_{{.Server}}: user {{.User}} logged on {{.SrcIp}}"''\<close>

definition eventSystemTemplate :: string where
  \<open>eventSystemTemplate =
     ''date={{.Date.UTC.Format "2006-01-02"}} time={{.Timestamp}} devname="{{.DevName}}" devid="{{.DevId}}" logid="{{.LogId}}" type="event" subtype="system" level="{{.Level}}" vd="{{.Vd}}" eventtime={{.Date.Unix}} tz="{{.Timezone}}" logdesc="FortiSandbox AV database updated" version="1.522479" msg="FortiSandbox AV database updated"''\<close>

definition utmDnsTemplate :: string where
  \<open>utmDnsTemplate =
     ''date={{.Date.UTC.Format "2006-01-02"}} time={{.Timestamp}} devname="{{.DevName}}" devid="{{.DevId}}" logid="{{.LogId}}" type="utm" subtype="dns" eventtype="dns-query" level="{{.Level}}" vd="{{.Vd}}" eventtime={{.Date.Unix}} tz="{{.Timezone}}" policyid={{.PolicyId}} sessionid={{.SessionId}} srcip={{.SrcIp}} srcport={{.SrcPort}} srcintf="{{.Interface1}}" srcintfrole="{{.InterfaceRole1}}" dstip={{.DstIp}} dstport=53 dstintf="{{.Interface2}}" dstintfrole="{{.InterfaceRole2}}" proto={{.Protocol}} profile="{{.Server}}" xid={{.XId}} qname="{{.QueryName}}" qtype="{{.QueryType}}" qtypeval=1 qclass="IN"''\<close>

definition trafficForwardTemplate :: string where
  \<open>trafficForwardTemplate =
     ''date={{.Date.UTC.Format "2006-01-02"}} time={{.Timestamp}} devname="{{.DevName}}" devid="{{.DevId}}" logid="{{.LogId}}" type="traffic" subtype="forward" level="{{.Level}}" vd="{{.Vd}}" eventtime={{.Date.Unix}} srcip={{.SrcIp}} srcport={{.SrcPort}} srcintf="{{.Interface1}}" srcintfrole="{{.InterfaceRole1}}" dstip={{.DstIp}} dstport={{.DstPort}} dstintf="{{.Interface2}}" dstintfrole="{{.InterfaceRole2}}" sessionid={{.SessionId}} proto={{.Protocol}} action="{{.TrafficAction}}" policyid={{.PolicyId}} policytype="policy" service="SNMP" dstcountry="Reserved" srccountry="Reserved" trandisp="noop" duration={{.Duration}} sentbyte={{.SentBytes}} rcvdbyte={{.SentBytes}} sentpkt={{.SentPackets}} appcat="unscanned" crscore=30 craction=131072 crlevel="high"''\<close>

definition firewall_msgTemplates :: "string list" where
  "firewall_msgTemplates =
     [eventUserTemplate, eventSystemTemplate, utmDnsTemplate, trafficForwardTemplate]"

definition devices :: "string list" where
  \<open>devices =
    [''Lakewood'', ''Midvale'', ''Brookside'', ''Holloway'', ''Fairview'', ''Westport'',
     ''Elmswood'', ''Ridgefield'', ''Pinehurst'', ''Stonebridge'', ''Mapleton'', ''Riverside'',
     ''Graysville'', ''Windermere'', ''Briarcliff'', ''Oakridge'', ''Highland'',
     ''Copperfield'', ''Woodhaven'', ''Silverton'', ''Rosewood'', ''Cedarcrest'', ''Ashford'',
     ''Elmwood'', ''Woodbury'', ''Springfield'', ''Ravenswood'', ''Stonegate'', ''Brookhaven'',
     ''Southgate'', ''Seabrook'', ''Edgewood'', ''Greenfield'', ''Meadowbrook'', ''Bellevue'',
     ''Clarksville'', ''Oakwood'', ''Ridgemont'', ''Crystal_Lake'', ''Riverview'',
     ''Whispering_Pines'', ''Forest_Hill'', ''Sunnydale'', ''Mountview'', ''Woodlake'',
     ''Baywood'', ''Brentwood'', ''Lincolnwood'', ''Summitville'', ''Elm_Grove'']\<close>

definition devid :: "string list" where
  \<open>devid =
    [''Lakew'', ''Midva'', ''Broos'', ''Hollo'', ''Fairv'', ''Westp'', ''Elmsw'', ''Ridge'',
     ''Pineh'', ''Stonb'', ''Maple'', ''Rivers'', ''Grayv'', ''Windm'', ''Briac'', ''Oakri'',
     ''Highl'', ''Copfi'', ''Woodh'', ''Silve'', ''Rosew'', ''Cedcr'', ''Ashfo'', ''Elmwo'',
     ''Woodb'', ''Sprin'', ''Raven'', ''Stoga'', ''Brooh'', ''South'', ''Seabr'', ''Edgew'',
     ''Green'', ''Meado'', ''Belle'', ''Clark'', ''Oakwo'', ''Ridgm'', ''Cryla'', ''Rivew'',
     ''Whisp'', ''Foreh'', ''Sunny'', ''Mount'', ''Woodl'', ''Baywo'', ''Brewd'', ''Lincw'',
     ''Summi'', ''Elmgv'']\<close>

definition users :: "string list" where
  \<open>users =
    [''Liam_Walters'', ''Emma_Douglas'', ''Noah_Hamilton'', ''Olivia_Stevens'',
     ''Elijah_Baker'', ''Ava_Reynolds'', ''James_Thompson'', ''Sophia_Parker'',
     ''Lucas_Bennett'', ''Isabella_Brooks'', ''Mason_Rogers'', ''Mia_Campbell'',
     ''Ethan_Phillips'', ''Amelia_Bell'', ''Alexander_Carter'', ''Charlotte_Adams'',
     ''Henry_Patterson'', ''Harper_Wright'', ''Sebastian_Cooper'', ''Evelyn_Gray'',
     ''Jack_Hughes'', ''Lily_Ross'', ''Owen_Morris'', ''Ella_Hayes'', ''Daniel_Peterson'',
     ''Aria_Myers'', ''Samuel_Long'', ''Chloe_Collins'', ''Matthew_Hughes'', ''Grace_Cook'',
     ''Wyatt_Warren'', ''Scarlett_Reed'', ''Caleb_Bryant'', ''Penelope_Rogers'',
     ''Isaac_Murphy'', ''Nora_Jenkins'', ''Jacob_Cunningham'', ''Hazel_Clark'',
     ''Levi_Morgan'', ''Riley_Perry'', ''Nathaniel_Foster'', ''Zoey_Ford'',
     ''Joshua_Harrison'', ''Lillian_Sullivan'', ''David_McCarthy'', ''Avery_Hart'',
     ''Andrew_Walker'', ''Stella_Price'', ''Thomas_Ward'', ''Hannah_Hall'']\<close>

definition levels :: "string list" where
  \<open>levels =
    [''warning'', ''notice'', ''information'', ''error'']\<close>

definition interfaces :: "string list" where
  \<open>interfaces =
    [''int0'', ''int1'', ''int2'', ''int3'', ''int4'', ''int5'', ''int6'', ''int7'']\<close>

definition roles :: "string list" where
  \<open>roles =
    [''lan'', ''wan'', ''internal'', ''external'', ''inbound'', ''outbound'']\<close>

definition protocols :: "int list" where
  "protocols = [6, 17]"

definition queries :: "string list" where
  \<open>queries =
    [''www.silverpinevalley.com'', ''www.brickstoneridge.net'', ''www.oakwoodgrove.org'',
     ''www.bluewaterhaven.co'', ''www.copperhollow.info'', ''www.windyriverplains.com'',
     ''www.crystalbayvillage.net'', ''www.ironwoodcove.org'', ''www.sunsetbluffresort.co'',
     ''www.whisperinghillspoint.info'', ''www.mapleridgeranch.com'',
     ''www.goldenpeakfarms.net'', ''www.riverviewmeadows.org'', ''www.stonecreekwoods.co'',
     ''www.briarwoodcrossing.info'', ''www.highlandgrovesprings.com'',
     ''www.greenfieldretreat.net'', ''www.silverlakehollow.org'', ''www.rosewoodvista.co'',
     ''www.ashforddunes.info'', ''www.willowbrookcourt.com'', ''www.oakridgefalls.net'',
     ''www.copperfieldgrove.org'', ''www.windermerebay.co'', ''www.meadowbrookhaven.info'',
     ''www.bellavistaacres.com'', ''www.ridgemontestates.net'', ''www.sunnydaleshores.org'',
     ''www.lakewoodreserves.co'', ''www.westportpines.info'', ''www.elmswoodmeadow.com'',
     ''www.ridgefieldplaza.net'', ''www.pinehurstcove.org'', ''www.stonebridgeflats.co'',
     ''www.mapletonlodge.info'', ''www.graysvillemanor.com'', ''www.windermerepoint.net'',
     ''www.briarcliffheights.org'', ''www.oakridgebay.co'', ''www.highlandcrossing.info'',
     ''www.copperfieldterrace.com'', ''www.woodhavenhills.net'', ''www.silvertonview.org'',
     ''www.rosewoodvalley.co'', ''www.cedarcrestgrove.info'', ''www.ashfordpeaks.com'',
     ''www.elmwoodlakes.net'', ''www.woodburyridge.org'', ''www.springfieldbluff.co'']\<close>

definition queryTypes :: "string list" where
  \<open>queryTypes =
    [''A'', ''AAAA'']\<close>

definition servers :: "string list" where
  \<open>servers =
    [''Zeus_prod'', ''Hera_test'', ''Poseidon_dev'', ''Demeter_prod'', ''Athena_dev'',
     ''Apollo_test'', ''Artemis_prod'', ''Ares_dev'', ''Aphrodite_test'', ''Hephaestus_prod'',
     ''Hermes_dev'', ''Hestia_test'', ''Dionysus_prod'', ''Hades_dev'', ''Persephone_test'',
     ''Hecate_prod'', ''Gaia_dev'', ''Cronus_test'', ''Rhea_prod'', ''Eros_dev'',
     ''Helios_test'', ''Selene_prod'', ''Eos_dev'', ''Nike_test'', ''Nemesis_prod'',
     ''Iris_dev'', ''Hypnos_test'', ''Thanatos_prod'', ''Morpheus_dev'', ''Tyche_test'',
     ''Pan_prod'', ''Eris_dev'', ''Hebe_test'', ''Nyx_prod'', ''Khione_dev'', ''Themis_test'',
     ''Harmonia_prod'', ''Phoebe_dev'', ''Leto_test'', ''Tethys_prod'', ''Metis_dev'',
     ''Aether_test'', ''Hemera_prod'', ''Eurus_dev'', ''Notus_test'', ''Boreas_prod'',
     ''Zephyrus_dev'', ''Styx_test'', ''Phobos_prod'', ''Deimos_dev'']\<close>

definition trafficActions :: "string list" where
  \<open>trafficActions =
    [''deny'', ''accept'']\<close>

text \<open>
  The record of the generator. Go's \<^verbatim>\<open>int\<close> has 64 bits on the platforms the
  program is built for; the largest value computed is \<open>65535 * 1500\<close>, so the fields are
  integers without wrap-around.
\<close>

record Firewall =
  Timestamp :: string
  Date :: Time
  DevId :: string
  DevName :: string
  Direction :: string
  DstIp :: IP
  DstPort :: int
  Duration :: int
  Interface1 :: string
  Interface2 :: string
  InterfaceRole1 :: string
  InterfaceRole2 :: string
  Level :: string
  LogId :: int
  PolicyId :: int
  Protocol :: int
  QueryName :: string
  QueryType :: string
  ReceivedBytes :: int
  SentBytes :: int
  SentPackets :: int
  Server :: string
  SessionId :: int
  SrcIp :: IP
  SrcPort :: int
  Templates :: "Template list"
  Timezone :: string
  TrafficAction :: string
  User :: string
  Vd :: string
  XId :: int

text \<open>\<^verbatim>\<open>&Firewall{}\<close>\<close>

definition Firewall_zero :: Firewall where
  "Firewall_zero =
     \<lparr>Timestamp = [], Date = zeroTime, DevId = [], DevName = [], Direction = [], DstIp = [],
      DstPort = 0, Duration = 0, Interface1 = [], Interface2 = [], InterfaceRole1 = [],
      InterfaceRole2 = [], Level = [], LogId = 0, PolicyId = 0, Protocol = 0, QueryName = [],
      QueryType = [], ReceivedBytes = 0, SentBytes = 0, SentPackets = 0, Server = [],
      SessionId = 0, SrcIp = [], SrcPort = 0, Templates = [], Timezone = [],
      TrafficAction = [], User = [], Vd = [], XId = 0\<rparr>"

text \<open>The generator as the template engine sees it.\<close>

definition Firewall_value :: "Firewall \<Rightarrow> gvalue" where
  "Firewall_value f = VStruct
     [(''Timestamp'', VString (Timestamp f)),
      (''Date'', VTime (Date f)),
      (''DevId'', VString (DevId f)),
      (''DevName'', VString (DevName f)),
      (''Direction'', VString (Direction f)),
      (''DstIp'', VIP (DstIp f)),
      (''DstPort'', VInt (DstPort f)),
      (''Duration'', VInt (Duration f)),
      (''Interface1'', VString (Interface1 f)),
      (''Interface2'', VString (Interface2 f)),
      (''InterfaceRole1'', VString (InterfaceRole1 f)),
      (''InterfaceRole2'', VString (InterfaceRole2 f)),
      (''Level'', VString (Level f)),
      (''LogId'', VInt (LogId f)),
      (''PolicyId'', VInt (PolicyId f)),
      (''Protocol'', VInt (Protocol f)),
      (''QueryName'', VString (QueryName f)),
      (''QueryType'', VString (QueryType f)),
      (''ReceivedBytes'', VInt (ReceivedBytes f)),
      (''SentBytes'', VInt (SentBytes f)),
      (''SentPackets'', VInt (SentPackets f)),
      (''Server'', VString (Server f)),
      (''SessionId'', VInt (SessionId f)),
      (''SrcIp'', VIP (SrcIp f)),
      (''SrcPort'', VInt (SrcPort f)),
      (''Templates'', VOpaque),
      (''Timezone'', VString (Timezone f)),
      (''TrafficAction'', VString (TrafficAction f)),
      (''User'', VString (User f)),
      (''Vd'', VString (Vd f)),
      (''XId'', VInt (XId f))]"

definition Firewall_randomize :: "Firewall \<Rightarrow> world \<Rightarrow> (Firewall \<times> world) option" where
  "Firewall_randomize f w = do {
     (v, w) \<leftarrow> Randomtime w;
     let f = f\<lparr>Timestamp := v\<rparr>;
     (i, w) \<leftarrow> Intn (int (length devices)) w;
     v \<leftarrow> index devices i;
     let f = f\<lparr>DevName := v\<rparr>;
     (i, w) \<leftarrow> Intn (int (length devid)) w;
     v \<leftarrow> index devid i;
     let f = f\<lparr>DevId := v\<rparr>;
     (v, w) \<leftarrow> Intn 10 w;
     let f = f\<lparr>LogId := v\<rparr>;
     let f = f\<lparr>Timezone := ''-0500''\<rparr>;
     let (v, w) = Now w;
     let f = f\<lparr>Date := v\<rparr>;
     let f = f\<lparr>Vd := ''root''\<rparr>;
     (i, w) \<leftarrow> Intn (int (length users)) w;
     v \<leftarrow> index users i;
     let f = f\<lparr>User := v\<rparr>;
     (i, w) \<leftarrow> Intn (int (length servers)) w;
     v \<leftarrow> index servers i;
     let f = f\<lparr>Server := v\<rparr>;
     let (v, w) = IPv4 w;
     let f = f\<lparr>SrcIp := v\<rparr>;
     (v, w) \<leftarrow> Port w;
     let f = f\<lparr>SrcPort := v\<rparr>;
     let (v, w) = IPv4 w;
     let f = f\<lparr>DstIp := v\<rparr>;
     (v, w) \<leftarrow> Port w;
     let f = f\<lparr>DstPort := v\<rparr>;
     (v, w) \<leftarrow> Intn 256 w;
     let f = f\<lparr>PolicyId := v\<rparr>;
     (v, w) \<leftarrow> Intn 65536 w;
     let f = f\<lparr>SessionId := v\<rparr>;
     (i, w) \<leftarrow> Intn (int (length interfaces)) w;
     v \<leftarrow> index interfaces i;
     let f = f\<lparr>Interface1 := v\<rparr>;
     (i, w) \<leftarrow> Intn (int (length interfaces)) w;
     v \<leftarrow> index interfaces i;
     let f = f\<lparr>Interface2 := v\<rparr>;
     (i, w) \<leftarrow> Intn (int (length roles)) w;
     v \<leftarrow> index roles i;
     let f = f\<lparr>InterfaceRole1 := v\<rparr>;
     (i, w) \<leftarrow> Intn (int (length roles)) w;
     v \<leftarrow> index roles i;
     let f = f\<lparr>InterfaceRole2 := v\<rparr>;
     (i, w) \<leftarrow> Intn (int (length protocols)) w;
     v \<leftarrow> index protocols i;
     let f = f\<lparr>Protocol := v\<rparr>;
     (i, w) \<leftarrow> Intn (int (length queries)) w;
     v \<leftarrow> index queries i;
     let f = f\<lparr>QueryName := v\<rparr>;
     (i, w) \<leftarrow> Intn (int (length queryTypes)) w;
     v \<leftarrow> index queryTypes i;
     let f = f\<lparr>QueryType := v\<rparr>;
     (v, w) \<leftarrow> Intn 256 w;
     let f = f\<lparr>XId := v\<rparr>;
     (i, w) \<leftarrow> Intn (int (length levels)) w;
     v \<leftarrow> index levels i;
     let f = f\<lparr>Level := v\<rparr>;
     (i, w) \<leftarrow> Intn (int (length trafficActions)) w;
     v \<leftarrow> index trafficActions i;
     let f = f\<lparr>TrafficAction := v\<rparr>;
     (v, w) \<leftarrow> Intn 65536 w;
     let f = f\<lparr>SentPackets := v\<rparr>;
     let f = f\<lparr>SentBytes := SentPackets f * 1500\<rparr>;
     (v, w) \<leftarrow> Intn 1024 w;
     let f = f\<lparr>Duration := v\<rparr>;
     Some (f, w)
   }"

text \<open>
  \<^verbatim>\<open>New\<close>, over the list of template sources: \<^verbatim>\<open>msgTemplates\<close> is a variable
  of the package, and \<open>firewall_New\<close> is the constructor with its declared value. The
  result is the pair that Go returns, the generator or the error, with the state of the
  environment.
\<close>

definition firewall_New_from ::
  "string list \<Rightarrow> Config \<Rightarrow> world \<Rightarrow> ((error + Firewall) \<times> world) option" where
  "firewall_New_from tmpls cfg w =
     (case Unpack cfg of
        Some msg \<Rightarrow> Some (Inl (ConfigError msg), w)
      | None \<Rightarrow> do {
          (f, w) \<leftarrow> Firewall_randomize Firewall_zero w;
          Some (case parseTemplates 0 tmpls (Templates f) of
                  Inl err \<Rightarrow> Inl err
                | Inr ts \<Rightarrow> Inr (f\<lparr>Templates := ts\<rparr>), w)
        })"

definition firewall_New :: "Config \<Rightarrow> world \<Rightarrow> ((error + Firewall) \<times> world) option" where
  "firewall_New = firewall_New_from firewall_msgTemplates"

text \<open>
  \<^verbatim>\<open>Next\<close> returns the bytes or the error, and leaves the generator and the
  environment in a new state.
\<close>

definition Firewall_Next ::
  "Firewall \<Rightarrow> world \<Rightarrow> ((error + string) \<times> Firewall \<times> world) option" where
  "Firewall_Next f w = do {
     (i, w) \<leftarrow> Intn (int (length (Templates f))) w;
     t \<leftarrow> index (Templates f) i;
     case Execute t (Firewall_value f) of
       Inl err \<Rightarrow> Some (Inl err, f, w)
     | Inr buf \<Rightarrow> do {
         (f, w) \<leftarrow> Firewall_randomize f w;
         Some (Inr buf, f, w)
       }
   }"

section \<open>The Citrix CEF generator\<close>

definition cef_Name :: string where
  "cef_Name = ''citrix:cef''"

definition tmpl :: string where
  \<open>tmpl =
     ''{{.Timestamp.Format .TimeLayout}} <{{.Facility}}.{{.Priority}}> {{.Addr}} CEF:{{.CEFVersion}}|{{.Vendor}}|{{.Product}}|{{.Version}}|{{.Module}}|{{.Violation}}|{{.Severity}}|src={{.SrcAddr}} {{with .Geo}}geolocation={{.}} {{end}}spt={{.SrcPort}} method={{.Method}} request={{.Request}} msg={{.Message}} cn1={{.EventID}} cn2={{.TxID}} cs1={{.Profile}} cs2={{.PPEID}} cs3={{.SessID}} cs4={{.SeverityLabel}} cs5={{.Year}} {{with .ViolationCategory}}cs6={{.}} {{end}}act={{.Action}}''\<close>

definition cef_msgTemplates :: "string list" where
  "cef_msgTemplates = [tmpl]"

definition timeLayouts :: "string list" where
  \<open>timeLayouts =
    [''Jan 02 15:04:05'', ''Jan 2 15:04:05'']\<close>

definition facilities :: "string list" where
  \<open>facilities =
    [''auth'', ''authpriv'', ''cron'', ''daemon'', ''kern'', ''lpr'', ''mail'', ''mark'',
     ''news'', ''syslog'', ''user'', ''uucp'', ''local0'', ''local1'', ''local2'', ''local3'',
     ''local4'', ''local5'', ''local6'', ''local7'']\<close>

definition priorities :: "string list" where
  \<open>priorities =
    [''debug'', ''info'', ''notice'', ''warning'', ''warn'', ''err'', ''error'', ''crit'',
     ''alert'', ''emerg'', ''panic'']\<close>

definition vendors :: "string list" where
  \<open>vendors =
    [''Citrix'']\<close>

definition products :: "string list" where
  \<open>products =
    [''NetScalar'']\<close>

definition versions :: "string list" where
  \<open>versions =
    [''NS10.0'', ''NS11.0'']\<close>

definition modules :: "string list" where
  \<open>modules =
    [''APPFW'']\<close>

definition violations :: "string list" where
  \<open>violations =
    [''APPFW_FIELDCONSISTENCY'', ''APPFW_SAFECOMMERCE'', ''APPFW_SAFECOMMERCE_XFORM'',
     ''APPFW_SIGNATURE_MATCH'', ''APPFW_STARTURL'']\<close>

definition locations :: "string list" where
  \<open>locations =
    ['''', ''Unknown'', ''NorthAmerica.Altimoria.Corvax.CityCenter.*.*'',
     ''NorthAmerica.Florensia.Novath.TremorValley.*.*'',
     ''NorthAmerica.Gallania.Rovento.Sunridge.*.*'',
     ''NorthAmerica.Baltoria.Velzora.PolarisHeights.*.*'',
     ''NorthAmerica.Novadia.Quivera.FlamingRidge.*.*'',
     ''NorthAmerica.Xandria.Velmos.Riverstone.*.*'',
     ''NorthAmerica.Kestoria.Yalvaz.CrimsonHill.*.*'',
     ''NorthAmerica.Vollara.Zendar.AuroraPeaks.*.*'',
     ''NorthAmerica.Quintara.Pallaxa.SilverLake.*.*'',
     ''NorthAmerica.Morovia.Korvath.SolarisPlains.*.*'',
     ''NorthAmerica.Serenia.Ryland.Stormview.*.*'',
     ''NorthAmerica.Zyrenthia.Vortak.Ironcliff.*.*'',
     ''NorthAmerica.Valoria.Draconis.WildroseGlen.*.*'',
     ''NorthAmerica.Tarvonia.Felwind.ShadowGrove.*.*'',
     ''NorthAmerica.Lorasia.Velthra.Sunspire.*.*'',
     ''NorthAmerica.Talvaxia.Balaria.CrimsonFalls.*.*'',
     ''NorthAmerica.Elandria.Kovoria.Glintwood.*.*'',
     ''NorthAmerica.Orlanta.Zandor.Mistvale.*.*'',
     ''NorthAmerica.Valteris.Xanoris.ThunderValley.*.*'',
     ''NorthAmerica.Morlonia.Phaedra.EchoHaven.*.*'',
     ''NorthAmerica.Theria.Vestoria.TremorHollow.*.*'',
     ''NorthAmerica.Zarvath.Mystara.Glintwood.*.*'',
     ''NorthAmerica.Kalandor.Volvax.Silverstrand.*.*'',
     ''NorthAmerica.Olivar.Ventara.CrimsonMesa.*.*'',
     ''NorthAmerica.Theronia.Pyrax.ThunderRidge.*.*'',
     ''NorthAmerica.Veloria.Zyros.Moonshadow.*.*'',
     ''NorthAmerica.Zovaris.Korvax.Stormcrest.*.*'',
     ''NorthAmerica.Valentia.Rivenor.Sunblade.*.*'',
     ''NorthAmerica.Zeltria.Orex.Shadowridge.*.*'',
     ''NorthAmerica.Voronia.Xelthra.Thunderpeak.*.*'',
     ''SouthAmerica.Viridia.Malothia.JadeHollow.*.*'',
     ''SouthAmerica.Malandria.Aurelia.PhoenixBay.*.*'',
     ''SouthAmerica.Valcoria.Lorvia.EmeraldIsle.*.*'',
     ''SouthAmerica.Aronya.Valeria.MysticFalls.*.*'',
     ''SouthAmerica.Celestia.Palvoria.EbonyVale.*.*'',
     ''SouthAmerica.Zorvia.Sarath.TalonCliffs.*.*'',
     ''SouthAmerica.Celentis.Volara.Dreamshade.*.*'',
     ''SouthAmerica.Valthera.Tarvora.CrimsonCove.*.*'',
     ''SouthAmerica.Xanthia.Theros.MysticGrove.*.*'',
     ''SouthAmerica.Selveria.Pyros.Riverwind.*.*'',
     ''SouthAmerica.Volthea.Arventis.ShadowGlen.*.*'',
     ''SouthAmerica.Eldoria.Lithara.Thunderstone.*.*'',
     ''SouthAmerica.Korvax.Talora.Sunspire.*.*'',
     ''SouthAmerica.Vyxoria.Zandros.Shadowvale.*.*'',
     ''SouthAmerica.Pyronia.Volcath.SilentHill.*.*'',
     ''SouthAmerica.Zylandria.Orvath.CrimsonBay.*.*'',
     ''SouthAmerica.Valtheris.Vorlon.Suncrest.*.*'',
     ''SouthAmerica.Xylandria.Antaris.EchoValley.*.*'',
     ''SouthAmerica.Novanta.Pallaxa.LunarGrove.*.*'',
     ''SouthAmerica.Quilara.Talvos.StormBluff.*.*'',
     ''SouthAmerica.Vandora.Valzor.SilverStream.*.*'',
     ''SouthAmerica.Xyvronia.Lithara.MysticCove.*.*'',
     ''SouthAmerica.Selvoria.Vorvath.ThunderGlen.*.*'',
     ''SouthAmerica.Valencia.Orvalon.Rivercrest.*.*'',
     ''SouthAmerica.Xylothia.Zentar.GlintRidge.*.*'',
     ''SouthAmerica.Voloria.Sylvara.TwilightPeak.*.*'',
     ''Europe.Maldera.Quinthra.Shadowpeak.*.*'', ''Europe.Talvoria.Aurex.LunarHollow.*.*'',
     ''Europe.Valtoria.Xelara.SunfallGlen.*.*'', ''Europe.Xylandria.Korinox.StormCrest.*.*'',
     ''Europe.Ceridia.Vandor.SilverGrove.*.*'', ''Europe.Kytheria.Zorthal.Ravenridge.*.*'',
     ''Europe.Zypheria.Malvora.Sunwood.*.*'', ''Europe.Volaxia.Talendria.Moonstone.*.*'',
     ''Europe.Karvoria.Vorlon.EchoMesa.*.*'', ''Europe.Thalandia.Zaltor.Sunridge.*.*'',
     ''Europe.Vantoria.Syldor.CrimsonHollow.*.*'', ''Europe.Xantheas.Oltar.Stormwind.*.*'',
     ''Europe.Quinthia.Aetheris.ThunderCliff.*.*'',
     ''Europe.Rovinthar.Zyros.CrimsonGlade.*.*'', ''Europe.Selveris.Vorath.MoonBluff.*.*'',
     ''Europe.Talvora.Zyloth.Glintwood.*.*'', ''Europe.Valtheris.Vorath.MysticHaven.*.*'',
     ''Europe.Zelvoris.Altira.Silverthorn.*.*'', ''Europe.Valthera.Kylos.Sunspire.*.*'',
     ''Europe.Xyphera.Voltara.ShadowMire.*.*'', ''Europe.Celathra.Tharvos.MysticCove.*.*'',
     ''Europe.Theronis.Orvax.CrimsonPeak.*.*'', ''Europe.Selvorn.Korvath.ThunderBay.*.*'',
     ''Europe.Zantheria.Voloria.SilverMesa.*.*'', ''Europe.Xyrelia.Talvora.RavenGlen.*.*'',
     ''Europe.Valoria.Zelthra.Moonrise.*.*'', ''Europe.Quinthara.Olthera.SilverLake.*.*'',
     ''Europe.Zoltara.Ryvon.ThunderHill.*.*'', ''Europe.Selvoris.Vorland.Suncrest.*.*'',
     ''Europe.Theronix.Xarvath.CrimsonRidge.*.*'', ''Europe.Korvaris.Valthros.StormBay.*.*'',
     ''Europe.Valdoria.Quinthos.EchoGrove.*.*'', ''Africa.Voltheon.Zoltris.Suncrest.*.*'',
     ''Africa.Thalvaria.Ravinthar.LunarHollow.*.*'',
     ''Africa.Valoria.Xalvath.ThunderPlains.*.*'', ''Africa.Zorvath.Selenor.Silverpeak.*.*'',
     ''Africa.Vandora.Kylandar.MysticRidge.*.*'', ''Africa.Quinthar.Valthoria.Stormshade.*.*'',
     ''Africa.Xylothar.Vorath.SunValley.*.*'', ''Africa.Zelandia.Theronis.CrimsonCove.*.*'',
     ''Africa.Vantheon.Selvos.Moonspire.*.*'', ''Africa.Therondar.Volaria.ShadowGrove.*.*'',
     ''Africa.Valdoria.Altira.LunarBay.*.*'', ''Africa.Selvoria.Xylandor.Glintwood.*.*'',
     ''Africa.Xyronia.Valtheris.Sunridge.*.*'', ''Africa.Quinthar.Voltara.ThunderGrove.*.*'',
     ''Africa.Valterra.Olthoria.CrimsonBluff.*.*'', ''Africa.Xalvoria.Zorath.MysticPeak.*.*'',
     ''Africa.Thalvaris.Zanthon.Sunstone.*.*'', ''Africa.Rovinthar.Vantoria.EchoRidge.*.*'',
     ''Africa.Selthara.Zorvath.SilverCrest.*.*'', ''Africa.Xylandra.Valdoria.MoonRidge.*.*'',
     ''Africa.Valtheris.Zolvaris.ShadowValley.*.*'',
     ''Africa.Vorlonia.Thalvaris.Thunderstone.*.*'', ''Africa.Xalvaris.Zeltria.Sunbluff.*.*'',
     ''Africa.Vandaria.Rovinthar.GlintPeak.*.*'', ''Africa.Thalvath.Xoltris.SilverVale.*.*'',
     ''Africa.Valdaria.Sylvoris.MoonCrest.*.*'', ''Africa.Seltheris.Voltrax.CrimsonHill.*.*'',
     ''Africa.Valtheris.Rovinthor.SunGrove.*.*'', ''Africa.Xarvath.Zorvinth.StormValley.*.*'',
     ''Africa.Kylandor.Valthros.Glintstone.*.*'', ''Africa.Sylvoria.Zelvath.MoonGlen.*.*'',
     ''Asia.Valdoria.Tharvos.SunGrove.*.*'', ''Asia.Xelthar.Vorlon.Moonshade.*.*'',
     ''Asia.Zantheria.Vorath.StormVale.*.*'', ''Asia.Valtheris.Selvath.ThunderCrest.*.*'',
     ''Asia.Tharvath.Xoltria.Sunbluff.*.*'', ''Asia.Zolvaris.Valthros.ShadowGrove.*.*'',
     ''Asia.Xarvath.Selvorn.Moonstone.*.*'', ''Asia.Voltaris.Zeltria.GlintRidge.*.*'',
     ''Asia.Seltharis.Valoria.Sunwood.*.*'', ''Asia.Valtoris.Thalvath.MysticGrove.*.*'',
     ''Asia.Zarvath.Xelvos.CrimsonPeak.*.*'', ''Asia.Volaris.Tharvon.Shadowvale.*.*'',
     ''Asia.Xelvoris.Valtheria.SilverGlen.*.*'', ''Asia.Valdoria.Zorvath.LunarHollow.*.*'',
     ''Asia.Xylandar.Valvoria.Sunstone.*.*'', ''Asia.Theronis.Voltrax.Glintwood.*.*'',
     ''Asia.Zeltria.Valtoria.StormGlen.*.*'', ''Asia.Vanthara.Tharvath.ThunderBay.*.*'',
     ''Asia.Selthra.Zoltrax.Moonridge.*.*'', ''Asia.Valtheria.Zarvath.Sunbluff.*.*'',
     ''Asia.Xoltria.Volaria.SilverBay.*.*'', ''Asia.Theronis.Valdaria.Shadowstone.*.*'',
     ''Asia.Valvoria.Zyloth.SunVale.*.*'', ''Asia.Xantheria.Thalvath.Moonstone.*.*'',
     ''Asia.Zarvath.Valthros.GlintGlen.*.*'', ''Asia.Vorathia.Xelthros.Suncrest.*.*'',
     ''Asia.Selvoria.Zolvaris.CrimsonHill.*.*'', ''Asia.Valdoris.Theronis.MoonGrove.*.*'']\<close>

definition methods :: "string list" where
  \<open>methods =
    [''GET'', ''POST'']\<close>

definition requests :: "string list" where
  \<open>requests =
    [''http://aaron.stratum8.net/FFC/login.html'',
     ''http://aaron.stratum8.net/FFC/login.php?login_name=abc&passwd=123456789234&drinking_pref=on&text_area=&loginButton=ClickToLogin&as_sfid=AAAAAAWIahZuYoIFbjBhYMP05mJLTwEfIY0a7AKGMg3jIBaKmwtK4t7M7lNxOgj7Gmd3SZc8KUj6CR6a7W5kIWDRHN8PtK1Zc-txHkHNx1WknuG9DzTuM7t1THhluevXu9I4kp8%3D&as_fid=feeec8758b41740eedeeb6b35b85dfd3d5def30c'',
     ''http://aaron.stratum8.net/FFC/wwwboard/passwd.txt'',
     ''http://aaron.stratum8.net/FFC/CreditCardMind.html'',
     ''http://vpx247.example.net/FFC/CreditCardMind.html'',
     (''http://vpx247.example.net/FFC/login_post.html?abc'' @ [CHR 0x5C] @ ''=def''),
     ''http://vpx247.example.net/FFC/wwwboard/passwd.txt'']\<close>

definition messages :: "string list" where
  \<open>messages =
    [''Signature violation rule ID 807: web-cgi /wwwboard/passwd.txt access'',
     ''Disallow Illegal URL.'',
     ''Transformed (xout) potential credit card numbers seen in server response'',
     ''Maximum number of potential credit card numbers seen'',
     ''Field consistency check failed for field passwd'']\<close>

definition profiles :: "string list" where
  \<open>profiles =
    [''pr_ffc'']\<close>

definition severityLabels :: "string list" where
  \<open>severityLabels =
    [''INFO'', ''ALERT'']\<close>

definition violationCategory :: "string list" where
  \<open>violationCategory =
    ['''', ''web-cgi'', ''sql-injection'', ''phishing'']\<close>

definition actions :: "string list" where
  \<open>actions =
    [''blocked'', ''not blocked'', ''transformed'']\<close>

record CEF =
  Timestamp :: Time
  TimeLayout :: string
  Facility :: string
  Priority :: string
  Addr :: IP
  CEFVersion :: int
  Vendor :: string
  Product :: string
  Version :: string
  Module :: string
  Violation :: string
  Severity :: int
  SrcAddr :: IP
  Geo :: string
  SrcPort :: int
  Method :: string
  Request :: string
  Message :: string
  EventID :: int
  TxID :: int
  Profile :: string
  PPEID :: string
  SessID :: string
  SeverityLabel :: string
  Year :: int
  ViolationCategory :: string
  Action :: string
  templates :: "Template list"

text \<open>\<^verbatim>\<open>&CEF{}\<close>\<close>

definition CEF_zero :: CEF where
  "CEF_zero =
     \<lparr>Timestamp = zeroTime, TimeLayout = [], Facility = [], Priority = [], Addr = [],
      CEFVersion = 0, Vendor = [], Product = [], Version = [], Module = [], Violation = [],
      Severity = 0, SrcAddr = [], Geo = [], SrcPort = 0, Method = [], Request = [],
      Message = [], EventID = 0, TxID = 0, Profile = [], PPEID = [], SessID = [],
      SeverityLabel = [], Year = 0, ViolationCategory = [], Action = [], templates = []\<rparr>"

text \<open>
  The generator as the template engine sees it: the field \<^verbatim>\<open>templates\<close> is not
  exported and cannot be reached from a template.
\<close>

definition CEF_value :: "CEF \<Rightarrow> gvalue" where
  "CEF_value c = VStruct
     [(''Timestamp'', VTime (CEF.Timestamp c)),
      (''TimeLayout'', VString (TimeLayout c)),
      (''Facility'', VString (Facility c)),
      (''Priority'', VString (Priority c)),
      (''Addr'', VIP (Addr c)),
      (''CEFVersion'', VInt (CEFVersion c)),
      (''Vendor'', VString (Vendor c)),
      (''Product'', VString (Product c)),
      (''Version'', VString (Version c)),
      (''Module'', VString (Module c)),
      (''Violation'', VString (Violation c)),
      (''Severity'', VInt (Severity c)),
      (''SrcAddr'', VIP (SrcAddr c)),
      (''Geo'', VString (Geo c)),
      (''SrcPort'', VInt (CEF.SrcPort c)),
      (''Method'', VString (Method c)),
      (''Request'', VString (Request c)),
      (''Message'', VString (Message c)),
      (''EventID'', VInt (EventID c)),
      (''TxID'', VInt (TxID c)),
      (''Profile'', VString (Profile c)),
      (''PPEID'', VString (PPEID c)),
      (''SessID'', VString (SessID c)),
      (''SeverityLabel'', VString (SeverityLabel c)),
      (''Year'', VInt (Year c)),
      (''ViolationCategory'', VString (ViolationCategory c)),
      (''Action'', VString (Action c))]"

definition randString :: "string list \<Rightarrow> world \<Rightarrow> (string \<times> world) option" where
  "randString s w = do {
     (i, w) \<leftarrow> Intn (int (length s)) w;
     v \<leftarrow> index s i;
     Some (v, w)
   }"

text \<open>\<^verbatim>\<open>hex.EncodeToString\<close>\<close>

definition hextable :: string where
  "hextable = ''0123456789abcdef''"

definition EncodeToString :: "8 word list \<Rightarrow> string" where
  "EncodeToString src =
     concat (map (\<lambda>v. [hextable ! unat (drop_bit 4 v), hextable ! unat (v AND 0x0f)]) src)"

definition CEF_randomize :: "CEF \<Rightarrow> world \<Rightarrow> (CEF \<times> world) option" where
  "CEF_randomize c w = do {
     let (v, w) = Now w;
     let c = c\<lparr>CEF.Timestamp := v\<rparr>;
     (v, w) \<leftarrow> randString timeLayouts w;
     let c = c\<lparr>TimeLayout := v\<rparr>;
     (v, w) \<leftarrow> randString facilities w;
     let c = c\<lparr>Facility := v\<rparr>;
     (v, w) \<leftarrow> randString priorities w;
     let c = c\<lparr>Priority := v\<rparr>;
     let (v, w) = IPv4 w;
     let c = c\<lparr>Addr := v\<rparr>;
     (v, w) \<leftarrow> Intn 2 w;
     let c = c\<lparr>CEFVersion := v\<rparr>;
     (v, w) \<leftarrow> randString vendors w;
     let c = c\<lparr>Vendor := v\<rparr>;
     (v, w) \<leftarrow> randString products w;
     let c = c\<lparr>Product := v\<rparr>;
     (v, w) \<leftarrow> randString versions w;
     let c = c\<lparr>Version := v\<rparr>;
     (v, w) \<leftarrow> randString modules w;
     let c = c\<lparr>Module := v\<rparr>;
     (v, w) \<leftarrow> randString violations w;
     let c = c\<lparr>Violation := v\<rparr>;
     (v, w) \<leftarrow> Intn 10 w;
     let c = c\<lparr>Severity := v + 1\<rparr>;
     let (v, w) = IPv4 w;
     let c = c\<lparr>SrcAddr := v\<rparr>;
     (v, w) \<leftarrow> randString locations w;
     let c = c\<lparr>Geo := v\<rparr>;
     (v, w) \<leftarrow> Port w;
     let c = c\<lparr>CEF.SrcPort := v\<rparr>;
     (v, w) \<leftarrow> randString methods w;
     let c = c\<lparr>Method := v\<rparr>;
     (v, w) \<leftarrow> randString requests w;
     let c = c\<lparr>Request := v\<rparr>;
     (v, w) \<leftarrow> randString messages w;
     let c = c\<lparr>Message := v\<rparr>;
     (v, w) \<leftarrow> Intn 1000 w;
     let c = c\<lparr>EventID := v\<rparr>;
     (v, w) \<leftarrow> Intn 100000 w;
     let c = c\<lparr>TxID := v\<rparr>;
     (v, w) \<leftarrow> randString profiles w;
     let c = c\<lparr>Profile := v\<rparr>;
     (v, w) \<leftarrow> Intn 9 w;
     let c = c\<lparr>PPEID := ''PPE'' @ Itoa (v + 1)\<rparr>;
     let (sessID, w) = Read 16 w;
     let c = c\<lparr>SessID := EncodeToString sessID\<rparr>;
     (v, w) \<leftarrow> randString severityLabels w;
     let c = c\<lparr>SeverityLabel := v\<rparr>;
     let c = c\<lparr>Year := Time_Year (CEF.Timestamp c)\<rparr>;
     (v, w) \<leftarrow> randString violationCategory w;
     let c = c\<lparr>ViolationCategory := v\<rparr>;
     (v, w) \<leftarrow> randString actions w;
     let c = c\<lparr>Action := v\<rparr>;
     Some (c, w)
   }"

definition cef_New_from ::
  "string list \<Rightarrow> Config \<Rightarrow> world \<Rightarrow> ((error + CEF) \<times> world) option" where
  "cef_New_from tmpls cfg w =
     (case Unpack cfg of
        Some msg \<Rightarrow> Some (Inl (ConfigError msg), w)
      | None \<Rightarrow> do {
          (c, w) \<leftarrow> CEF_randomize CEF_zero w;
          Some (case parseTemplates 0 tmpls (templates c) of
                  Inl err \<Rightarrow> Inl err
                | Inr ts \<Rightarrow> Inr (c\<lparr>templates := ts\<rparr>), w)
        })"

definition cef_New :: "Config \<Rightarrow> world \<Rightarrow> ((error + CEF) \<times> world) option" where
  "cef_New = cef_New_from cef_msgTemplates"

definition CEF_Next :: "CEF \<Rightarrow> world \<Rightarrow> ((error + string) \<times> CEF \<times> world) option" where
  "CEF_Next c w = do {
     (i, w) \<leftarrow> Intn (int (length (templates c))) w;
     t \<leftarrow> index (templates c) i;
     case Execute t (CEF_value c) of
       Inl err \<Rightarrow> Some (Inl err, c, w)
     | Inr buf \<Rightarrow> do {
         (c, w) \<leftarrow> CEF_randomize c w;
         Some (Inr buf, c, w)
       }
   }"

section \<open>The domains of the fields and the reachable generators\<close>

text \<open>The text of a time under the layouts with a fixed shape.\<close>

definition dateString :: "Time \<Rightarrow> string" where
  "dateString t =
     (case Time_Date t of (year, month, day) \<Rightarrow>
        appendInt year 4 @ ''-'' @ appendInt month 2 @ ''-'' @ appendInt day 2)"

definition isDigit :: "char \<Rightarrow> bool" where
  "isDigit c = (c \<in> set ''0123456789'')"

definition isHexDigit :: "char \<Rightarrow> bool" where
  "isHexDigit c = (c \<in> set ''0123456789abcdef'')"

definition isClockString :: "string \<Rightarrow> bool" where
  "isClockString s =
     (length s = 8 \<and> s ! 2 = CHR '':'' \<and> s ! 5 = CHR '':''
      \<and> list_all isDigit [s ! 0, s ! 1, s ! 3, s ! 4, s ! 6, s ! 7])"

text \<open>An IPv4 address in the 16-byte form that \<^verbatim>\<open>net.IPv4\<close> builds.\<close>

definition isIPv4 :: "IP \<Rightarrow> bool" where
  "isIPv4 ip = (length ip = 16 \<and> take 12 ip = v4InV6Prefix)"

text \<open>
  The domain of every field that \<^verbatim>\<open>Firewall.randomize\<close> assigns: the lookup
  table of a categorical field, the range of a numeric field, the shape of a generated
  string, and the derivation of the sent bytes from the sent packets.
\<close>

definition Firewall_valid :: "Firewall \<Rightarrow> bool" where
  "Firewall_valid f =
     (isClockString (Firewall.Timestamp f)
      \<and> DevName f \<in> set devices
      \<and> DevId f \<in> set devid
      \<and> LogId f \<in> {0..9}
      \<and> Timezone f = ''-0500''
      \<and> Vd f = ''root''
      \<and> User f \<in> set users
      \<and> Server f \<in> set servers
      \<and> isIPv4 (SrcIp f)
      \<and> Firewall.SrcPort f \<in> {0..65535}
      \<and> isIPv4 (DstIp f)
      \<and> DstPort f \<in> {0..65535}
      \<and> PolicyId f \<in> {0..255}
      \<and> SessionId f \<in> {0..65535}
      \<and> Interface1 f \<in> set interfaces
      \<and> Interface2 f \<in> set interfaces
      \<and> InterfaceRole1 f \<in> set roles
      \<and> InterfaceRole2 f \<in> set roles
      \<and> Protocol f \<in> set protocols
      \<and> QueryName f \<in> set queries
      \<and> QueryType f \<in> set queryTypes
      \<and> XId f \<in> {0..255}
      \<and> Level f \<in> set levels
      \<and> TrafficAction f \<in> set trafficActions
      \<and> SentPackets f \<in> {0..65535}
      \<and> SentBytes f = SentPackets f * 1500
      \<and> Duration f \<in> {0..1023})"

definition ppeids :: "string list" where
  "ppeids = map (\<lambda>i. ''PPE'' @ Itoa i) [1..9]"

definition CEF_valid :: "CEF \<Rightarrow> bool" where
  "CEF_valid c =
     (TimeLayout c \<in> set timeLayouts
      \<and> Facility c \<in> set facilities
      \<and> Priority c \<in> set priorities
      \<and> isIPv4 (Addr c)
      \<and> CEFVersion c \<in> {0..1}
      \<and> Vendor c \<in> set vendors
      \<and> Product c \<in> set products
      \<and> Version c \<in> set versions
      \<and> Module c \<in> set modules
      \<and> Violation c \<in> set violations
      \<and> Severity c \<in> {1..10}
      \<and> isIPv4 (SrcAddr c)
      \<and> Geo c \<in> set locations
      \<and> CEF.SrcPort c \<in> {0..65535}
      \<and> Method c \<in> set methods
      \<and> Request c \<in> set requests
      \<and> Message c \<in> set messages
      \<and> EventID c \<in> {0..999}
      \<and> TxID c \<in> {0..99999}
      \<and> Profile c \<in> set profiles
      \<and> PPEID c \<in> set ppeids
      \<and> length (SessID c) = 32 \<and> list_all isHexDigit (SessID c)
      \<and> SeverityLabel c \<in> set severityLabels
      \<and> Year c = Time_Year (CEF.Timestamp c)
      \<and> ViolationCategory c \<in> set violationCategory
      \<and> Action c \<in> set actions)"

text \<open>
  The generators a driver can hold: one that a constructor returned, or one that a call of
  \<^verbatim>\<open>Next\<close> left behind, whatever the environment did between the calls.
\<close>

inductive Firewall_reachable :: "Firewall \<Rightarrow> bool" where
  New: "firewall_New cfg w = Some (Inr f, w') \<Longrightarrow> Firewall_reachable f"
| Next: "Firewall_reachable f \<Longrightarrow> Firewall_Next f w = Some (r, f', w') \<Longrightarrow> Firewall_reachable f'"

inductive CEF_reachable :: "CEF \<Rightarrow> bool" where
  New: "cef_New cfg w = Some (Inr c, w') \<Longrightarrow> CEF_reachable c"
| Next: "CEF_reachable c \<Longrightarrow> CEF_Next c w = Some (r, c', w') \<Longrightarrow> CEF_reachable c'"

text \<open>A template source that the parser accepts, under whatever name.\<close>

definition compiles :: "string \<Rightarrow> bool" where
  "compiles src = (case Parse [] src of Inl err \<Rightarrow> False | Inr t \<Rightarrow> True)"

section \<open>Properties of the library functions\<close>

lemma digit_char_0 [simp]: "digit_char 0 = CHR ''0''"
  by (simp add: digit_char_def)

lemma digits_small: "n < 10 \<Longrightarrow> digits n = [digit_char n]"
  by (simp add: digits.simps)

lemma digits_two:
  "10 \<le> n \<Longrightarrow> n < 100 \<Longrightarrow> digits n = [digit_char (n div 10), digit_char (n mod 10)]"
  by (subst digits.simps) (simp add: digits_small)

lemma appendInt_two:
  "0 \<le> x \<Longrightarrow> x < 100 \<Longrightarrow>
   appendInt x 2 = [digit_char (nat x div 10), digit_char (nat x mod 10)]"
  by (cases "nat x < 10") (simp_all add: appendInt_def digits_small digits_two Let_def)

lemma Clock_bounds:
  "Time_Clock t = (h, m, s) \<Longrightarrow> 0 \<le> h \<and> h < 24 \<and> 0 \<le> m \<and> m < 60 \<and> 0 \<le> s \<and> s < 60"
proof -
  define x where "x = localSeconds t mod 86400"
  assume "Time_Clock t = (h, m, s)"
  then have hms: "h = x div 3600" "m = (x mod 3600) div 60" "s = x mod 60"
    by (simp_all add: Time_Clock_def Let_def x_def)
  have x: "0 \<le> x" "x < 86400" by (simp_all add: x_def)
  have "0 \<le> h" "h < 24" using x unfolding hms by linarith+
  moreover have "0 \<le> m" "m < 60" unfolding hms
    by (simp_all add: pos_imp_zdiv_nonneg_iff div_less_iff_less_mult)
  moreover have "0 \<le> s" "s < 60" unfolding hms by simp_all
  ultimately show ?thesis by simp
qed

lemma Format_clock:
  "Format t ''15:04:05'' =
     (case Time_Clock t of (h, m, s) \<Rightarrow>
        Some (appendInt h 2 @ '':'' @ appendInt m 2 @ '':'' @ appendInt s 2))"
  by (simp add: Format_def nextStdChunk_def hasPrefix_def appendStd_def split: prod.splits)

lemma Port_value:
  "Port w = Some (int (source w 0) mod 65536, w\<lparr>source := (\<lambda>i. source w (Suc i))\<rparr>)"
  by (simp add: Port_def Intn_def draw_def)

lemma residue_class_card:
  fixes v :: nat
  assumes "v < m"
  shows "card {r. r < m * k \<and> r mod m = v} = k"
proof -
  have "{r. r < m * k \<and> r mod m = v} = (\<lambda>q. q * m + v) ` {..<k}"
  proof (intro set_eqI iffI)
    fix r assume "r \<in> {r. r < m * k \<and> r mod m = v}"
    then have r: "r < m * k" "r mod m = v" by auto
    have "r div m < k" using r(1) assms
      by (simp add: less_mult_imp_div_less mult.commute)
    moreover have "r = (r div m) * m + v" using r(2) by (metis div_mult_mod_eq)
    ultimately show "r \<in> (\<lambda>q. q * m + v) ` {..<k}" by blast
  next
    fix r assume "r \<in> (\<lambda>q. q * m + v) ` {..<k}"
    then obtain q where q: "r = q * m + v" "q < k" by auto
    have "q * m + v < m * k"
    proof -
      have "q * m + v < q * m + m" using assms by simp
      also have "\<dots> = (Suc q) * m" by simp
      also have "\<dots> \<le> k * m" using q(2) by (intro mult_le_mono1) simp
      finally show ?thesis by (simp add: mult.commute)
    qed
    then show "r \<in> {r. r < m * k \<and> r mod m = v}" using q assms by simp
  qed
  moreover have "inj_on (\<lambda>q. q * m + v) {..<k}"
    using assms by (auto simp: inj_on_def)
  ultimately show ?thesis by (simp add: card_image)
qed

lemma window_width:
  "sint (UnixNano now - UnixNano (Add now (- (20 * Minute)))) = 1200000000000"
proof -
  have "UnixNano now - UnixNano (Add now (- (20 * Minute))) = (1200000000000 :: 64 word)"
    by (simp add: UnixNano_def Add_def Minute_def wi_hom_sub)
  then show ?thesis by simp
qed

lemma Randomtime_value:
  "Randomtime w =
     (let src = seeded w (word_of_int (clock w 0));
          ts = clock w 1 - 1200000000000 + int (src 0) mod 1200000000000
      in case Time_Clock \<lparr>instant = ts, location = zone w\<rparr> of (h, m, s) \<Rightarrow>
         Some (appendInt h 2 @ '':'' @ appendInt m 2 @ '':'' @ appendInt s 2,
               w\<lparr>source := (\<lambda>i. src (Suc i)), clock := (\<lambda>i. clock w (Suc (Suc i)))\<rparr>))"
  unfolding Randomtime_def Let_def
  apply (simp add: Now_def Seed_def window_width Int63n_def draw_def Format_clock
      split: prod.splits)
  apply (simp add: Add_def Minute_def UnixNano_def)
  done

lemma registerAll_foldl:
  "foldl (\<lambda>reg (ident, ctor). Register ident ctor reg) m regs = m ++ map_of (rev regs)"
proof (induction regs arbitrary: m)
  case Nil
  then show ?case by simp
next
  case (Cons a regs)
  obtain i c where a: "a = (i, c)" by (cases a)
  have "foldl (\<lambda>reg (ident, ctor). Register ident ctor reg) (Register i c m) regs
          = Register i c m ++ map_of (rev regs)"
    by (rule Cons.IH)
  moreover have "Register i c m ++ map_of (rev regs) = m ++ map_of (rev ((i, c) # regs))"
    by (auto simp: Register_def map_add_def fun_eq_iff split: option.splits)
  ultimately show ?case by (simp add: a)
qed

lemma Lookup_registerAll: "Lookup (registerAll regs) ident = map_of (rev regs) ident"
  by (simp add: registerAll_def Lookup_def registerAll_foldl)

section \<open>Printed values contain no newline\<close>

lemma bindE_simps [simp]:
  "bindE (Inl e) f = Inl e"
  "bindE (Inr x) f = f x"
  by (simp_all add: bindE_def)

lemma nlfree_simps [simp]:
  "nlfree []"
  "nlfree (c # s) = (c \<noteq> newline \<and> nlfree s)"
  "nlfree (s @ s') = (nlfree s \<and> nlfree s')"
  by (simp_all add: nlfree_def)

lemma nlfree_take: "nlfree s \<Longrightarrow> nlfree (take n s)"
  unfolding nlfree_def list_all_iff by (meson in_set_takeD)

lemma nlfree_replicate [simp]: "nlfree (replicate n c) = (n = 0 \<or> c \<noteq> newline)"
  by (auto simp: nlfree_def list_all_iff)

lemma isDigit_digit_char: "d < 10 \<Longrightarrow> isDigit (digit_char d)"
  unfolding isDigit_def digit_char_def by (rule nth_mem) simp

lemma isDigit_not_newline: "isDigit c \<Longrightarrow> c \<noteq> newline"
  by (auto simp: isDigit_def newline_def)

lemma isHexDigit_not_newline: "isHexDigit c \<Longrightarrow> c \<noteq> newline"
  by (auto simp: isHexDigit_def newline_def)

lemma list_all_nlfree: "list_all isDigit s \<Longrightarrow> nlfree s"
  unfolding nlfree_def list_all_iff by (blast dest: isDigit_not_newline)

lemma list_all_hex_nlfree: "list_all isHexDigit s \<Longrightarrow> nlfree s"
  unfolding nlfree_def list_all_iff by (blast dest: isHexDigit_not_newline)

lemma digits_isDigit: "list_all isDigit (digits n)"
proof (induction n rule: digits.induct)
  case (1 n)
  show ?case
  proof (cases "n < 10")
    case True
    then show ?thesis by (simp add: digits_small isDigit_digit_char)
  next
    case False
    then have "digits n = digits (n div 10) @ [digit_char (n mod 10)]"
      by (subst digits.simps) simp
    then show ?thesis using 1 False by (simp add: isDigit_digit_char)
  qed
qed

lemma digits_not_Nil [simp]: "digits n \<noteq> []"
  by (subst digits.simps) simp

lemma nlfree_digits [simp]: "nlfree (digits n)"
  by (rule list_all_nlfree) (rule digits_isDigit)

lemma nlfree_Itoa [simp]: "nlfree (Itoa i)"
  by (simp add: Itoa_def newline_def)

lemma Itoa_not_Nil [simp]: "Itoa i \<noteq> []"
  by (simp add: Itoa_def)

lemma nlfree_appendInt [simp]: "nlfree (appendInt x n)"
  by (simp add: appendInt_def Let_def newline_def)

lemma nlfree_ubtoa [simp]: "nlfree (ubtoa b)"
  by (simp add: ubtoa_def)

lemma nlfree_Month_String [simp]: "nlfree (Month_String m)"
proof (cases "1 \<le> m \<and> m \<le> 12")
  case True
  then have "nat (m - 1) < 12" by linarith
  then have "nat (m - 1) < length longMonthNames"
    by (simp add: longMonthNames_def)
  then have "longMonthNames ! nat (m - 1) \<in> set longMonthNames"
    by (rule nth_mem)
  moreover have "list_all nlfree longMonthNames"
    by (simp add: longMonthNames_def newline_def)
  ultimately show ?thesis using True by (simp add: Month_String_def list_all_iff)
next
  case False
  then have "Month_String m = ''%!Month('' @ Itoa m @ '')''"
    unfolding Month_String_def by (simp only: if_False)
  then show ?thesis by (simp add: newline_def)
qed

lemma appendFormat_skip [simp]:
  "appendFormat t (numeral n) (c # cs) = appendFormat t (pred_numeral n) cs"
  by (simp add: numeral_eq_Suc)

lemma Format_date: "Format t ''2006-01-02'' = Some (dateString t)"
  by (simp add: Format_def nextStdChunk_def hasPrefix_def appendStd_def dateString_def
      split: prod.splits)

lemma nlfree_dateString [simp]: "nlfree (dateString t)"
  by (simp add: dateString_def newline_def split: prod.splits)

lemma Format_timeLayouts:
  "layout \<in> set timeLayouts \<Longrightarrow> \<exists>s. Format t layout = Some s \<and> s \<noteq> [] \<and> nlfree s"
proof -
  assume "layout \<in> set timeLayouts"
  then consider "layout = ''Jan 02 15:04:05''" | "layout = ''Jan 2 15:04:05''"
    by (auto simp: timeLayouts_def)
  then show ?thesis
  proof cases
    case 1
    then show ?thesis
      by (simp add: Format_def nextStdChunk_def hasPrefix_def appendStd_def nlfree_take
          newline_def split: prod.splits)
  next
    case 2
    then show ?thesis
      by (simp add: Format_def nextStdChunk_def hasPrefix_def appendStd_def nlfree_take
          newline_def split: prod.splits)
  qed
qed

lemma IP_String_net_IPv4:
  "IP_String (net_IPv4 a b c d) = Some (ubtoa a @ ''.'' @ ubtoa b @ ''.'' @ ubtoa c @ ''.'' @ ubtoa d)"
  by (simp add: IP_String_def net_IPv4_def To4_def v4InV6Prefix_def)

lemma isIPv4_net_IPv4 [simp]: "isIPv4 (net_IPv4 a b c d)"
  by (simp add: isIPv4_def net_IPv4_def v4InV6Prefix_def)

lemma length_four: "length xs = 4 \<Longrightarrow> \<exists>a b c d. xs = [a, b, c, d]"
  by (auto simp: length_Suc_conv numeral_eq_Suc)

lemma length_eight: "length xs = 8 \<Longrightarrow> \<exists>a b c d e f g h. xs = [a, b, c, d, e, f, g, h]"
  by (auto simp: length_Suc_conv numeral_eq_Suc)

lemma isIPv4_cases: "isIPv4 ip \<Longrightarrow> \<exists>a b c d. ip = net_IPv4 a b c d"
proof -
  assume ip: "isIPv4 ip"
  then have "length (drop 12 ip) = 4" by (simp add: isIPv4_def)
  then obtain a b c d where "drop 12 ip = [a, b, c, d]"
    using length_four by blast
  moreover have "ip = take 12 ip @ drop 12 ip" by simp
  ultimately have "ip = v4InV6Prefix @ [a, b, c, d]"
    using ip by (simp add: isIPv4_def)
  then show ?thesis by (auto simp: net_IPv4_def)
qed

lemma IP_String_isIPv4: "isIPv4 ip \<Longrightarrow> \<exists>s. IP_String ip = Some s \<and> s \<noteq> [] \<and> nlfree s"
  by (auto dest!: isIPv4_cases simp: IP_String_net_IPv4 newline_def ubtoa_def)

lemma isClockString_nlfree: "isClockString s \<Longrightarrow> nlfree s"
proof -
  assume s: "isClockString s"
  then have "length s = 8" by (simp add: isClockString_def)
  then obtain a b c d e f g h where "s = [a, b, c, d, e, f, g, h]"
    using length_eight by blast
  moreover have "CHR '':'' \<noteq> newline" by (simp add: newline_def)
  ultimately show ?thesis
    using s by (simp add: isClockString_def isDigit_not_newline)
qed

lemma Randomtime_Some: "\<exists>s w'. Randomtime w = Some (s, w') \<and> isClockString s"
proof -
  define ts where
    "ts = clock w 1 - 1200000000000 + int (seeded w (word_of_int (clock w 0)) 0) mod 1200000000000"
  obtain h m s where c: "Time_Clock \<lparr>instant = ts, location = zone w\<rparr> = (h, m, s)"
    by (cases "Time_Clock \<lparr>instant = ts, location = zone w\<rparr>") auto
  note b = Clock_bounds [OF c]
  have d: "nat h div 10 < 10" "nat h mod 10 < 10" "nat m div 10 < 10" "nat m mod 10 < 10"
    "nat s div 10 < 10" "nat s mod 10 < 10"
    using b by simp_all linarith+
  have "isClockString (appendInt h 2 @ '':'' @ appendInt m 2 @ '':'' @ appendInt s 2)"
    using b d by (simp add: appendInt_two isClockString_def isDigit_digit_char)
  then show ?thesis
    using c by (simp add: Randomtime_value Let_def ts_def)
qed

section \<open>One pass of randomization\<close>

lemma Intn_pos: "0 < n \<Longrightarrow> Intn n w = Some (int (fst (draw w)) mod n, snd (draw w))"
  by (simp add: Intn_def split: prod.splits)

lemma pick_index [simp]:
  "xs \<noteq> [] \<Longrightarrow> index xs (int r mod int (length xs)) = Some (xs ! (r mod length xs))"
proof -
  assume "xs \<noteq> []"
  then have "r mod length xs < length xs" by simp
  then have "index xs (int (r mod length xs)) = Some (xs ! (r mod length xs))"
    by (simp add: index_def del: zmod_int)
  then show ?thesis by (simp add: zmod_int)
qed

lemma pick_mem [simp]: "xs \<noteq> [] \<Longrightarrow> xs ! (r mod length xs) \<in> set xs"
  by simp

lemma Port_pos: "Port w = Some (int (fst (draw w)) mod 65536, snd (draw w))"
  by (simp add: Port_def Intn_pos)

lemma IPv4_value: "\<exists>a b c d. IPv4 w = (net_IPv4 a b c d, snd (draw w))"
  by (auto simp: IPv4_def Uint32_def split: prod.splits)

lemma IPv4_simps [simp]: "isIPv4 (fst (IPv4 w))" "snd (IPv4 w) = snd (draw w)"
  using IPv4_value [of w] by auto

lemma firewall_tables_nonempty [simp]:
  "devices \<noteq> []" "devid \<noteq> []" "users \<noteq> []" "servers \<noteq> []" "interfaces \<noteq> []"
  "roles \<noteq> []" "protocols \<noteq> []" "queries \<noteq> []" "queryTypes \<noteq> []" "levels \<noteq> []"
  "trafficActions \<noteq> []"
  by (simp_all add: devices_def devid_def users_def servers_def interfaces_def roles_def
      protocols_def queries_def queryTypes_def levels_def trafficActions_def)

lemma mod_in_range:
  "int r mod 10 \<in> {0..9}" "int r mod 256 \<in> {0..255}" "int r mod 65536 \<in> {0..65535}"
  "int r mod 1024 \<in> {0..1023}" "int r mod 2 \<in> {0..1}" "int r mod 1000 \<in> {0..999}"
  "int r mod 100000 \<in> {0..99999}" "int r mod 10 + 1 \<in> {1..10}" "int r mod 9 + 1 \<in> {1..9}"
  by simp_all

lemma Firewall_randomize_valid:
  "\<exists>f' w'. Firewall_randomize f w = Some (f', w') \<and> Firewall_valid f'"
proof -
  obtain s w1 where r: "Randomtime w = Some (s, w1)" "isClockString s"
    using Randomtime_Some by blast
  show ?thesis
    unfolding Firewall_randomize_def
    by (simp add: r Intn_pos Port_pos Let_def case_prod_beta Firewall_valid_def
        mod_in_range del: atLeastAtMost_iff)
qed

lemma Firewall_randomize_frame:
  "Firewall_randomize f w =
     map_option (\<lambda>(f0, w'). (f0\<lparr>Direction := Direction f, ReceivedBytes := ReceivedBytes f,
        Templates := Templates f\<rparr>, w')) (Firewall_randomize Firewall_zero w)"
proof -
  obtain s w1 where r: "Randomtime w = Some (s, w1)" using Randomtime_Some by blast
  show ?thesis
    unfolding Firewall_randomize_def
    by (simp add: r Intn_pos Port_pos Let_def case_prod_beta Firewall_zero_def)
qed


lemma cef_tables_nonempty [simp]:
  "timeLayouts \<noteq> []" "facilities \<noteq> []" "priorities \<noteq> []" "vendors \<noteq> []"
  "products \<noteq> []" "versions \<noteq> []" "modules \<noteq> []" "violations \<noteq> []"
  "locations \<noteq> []" "methods \<noteq> []" "requests \<noteq> []" "messages \<noteq> []"
  "profiles \<noteq> []" "severityLabels \<noteq> []" "violationCategory \<noteq> []" "actions \<noteq> []"
  by (simp_all add: timeLayouts_def facilities_def priorities_def vendors_def products_def
      versions_def modules_def violations_def locations_def methods_def requests_def
      messages_def profiles_def severityLabels_def violationCategory_def actions_def)

lemma randString_value:
  "s \<noteq> [] \<Longrightarrow> randString s w = Some (s ! (fst (draw w) mod length s), snd (draw w))"
  by (simp add: randString_def Intn_pos)

lemma length_Read: "length (fst (Read n w)) = n"
  by (induction n arbitrary: w) (simp_all add: case_prod_beta)

lemma hextable_nth: "i < 16 \<Longrightarrow> isHexDigit (hextable ! i)"
  unfolding isHexDigit_def hextable_def by (rule nth_mem) simp

lemma nibble_bounds:
  fixes v :: "8 word"
  shows "unat (drop_bit 4 v) < 16" "unat (v AND 0x0f) < 16"
proof -
  have "unat (drop_bit 4 v) = unat v div 16"
    by (simp add: drop_bit_eq_div unat_div)
  moreover have "unat v < 256" using unsigned_less [of v] by simp
  ultimately show "unat (drop_bit 4 v) < 16" by simp
next
  have "v AND 0x0f \<le> 0x0f" by (rule word_and_le1)
  then show "unat (v AND 0x0f) < 16" by (simp add: word_le_nat_alt)
qed

lemma EncodeToString_hex:
  "length (EncodeToString src) = 2 * length src" "list_all isHexDigit (EncodeToString src)"
  unfolding EncodeToString_def
  by (induction src) (simp_all add: hextable_nth nibble_bounds)

lemma ppeid_mem: "CHR ''P'' # CHR ''P'' # CHR ''E'' # Itoa (int r mod 9 + 1) \<in> set ppeids"
proof -
  have "int r mod 9 + 1 \<in> set [1..9]" by simp
  then have "(\<lambda>i. ''PPE'' @ Itoa i) (int r mod 9 + 1) \<in> (\<lambda>i. ''PPE'' @ Itoa i) ` set [1..9]"
    by (rule imageI)
  then show ?thesis by (simp add: ppeids_def)
qed

lemma CEF_randomize_valid:
  "\<exists>c' w'. CEF_randomize c w = Some (c', w') \<and> CEF_valid c'"
  unfolding CEF_randomize_def
  by (simp add: randString_value Intn_pos Port_pos Let_def case_prod_beta CEF_valid_def
      mod_in_range length_Read EncodeToString_hex ppeid_mem del: atLeastAtMost_iff)

lemma CEF_randomize_frame:
  "CEF_randomize c w =
     map_option (\<lambda>(c0, w'). (c0\<lparr>templates := templates c\<rparr>, w')) (CEF_randomize CEF_zero w)"
  unfolding CEF_randomize_def
  by (simp add: randString_value Intn_pos Port_pos Let_def case_prod_beta CEF_zero_def)

section \<open>The declared templates, parsed and executed\<close>

text \<open>
  Each declared template parses, and the execution of its tree against a generator is the
  concatenation of its text and of the printed fields, in the order of the source.
\<close>

lemmas parse_simps = Parse_def textItem_def parseItem_def parseAction_def words_def
  parseOperand_def isIdentifier_def isAlphaNumeric_def isQuoted_def

lemmas exec_simps = evalCommand_def evalArg_def evalField_def printValue_def isTrue_def

lemma eventUser_tree:
  \<open>\<exists>tree. Parse nm eventUserTemplate = Inr (Template nm tree) \<and>
     (\<forall>f. execList (Firewall_value f) tree =
       (case IP_String (SrcIp f) of
          None \<Rightarrow> Inl (Unsupported ''IP'')
        | Some srcIp \<Rightarrow>
           Inr (''date='' @ dateString (UTC (Date f)) @ '' time='' @ Firewall.Timestamp f @
                '' devname="'' @ DevName f @ ''" devid="'' @ DevId f @ ''" logid="'' @
                Itoa (LogId f) @ ''" type="event" subtype="user" level="'' @ Level f @
                ''" vd="'' @ Vd f @ ''" eventtime='' @ Itoa (Unix (Date f)) @ '' tz="'' @
                Timezone f @ ''" logdesc="FSSO logon authentication status" srcip='' @ srcIp @
                '' user="'' @ User f @ ''" server="'' @ Server f @
                ''" action="FSSO-logon" msg="FSSO-logon event from FSSO_'' @ Server f @
                '': user '' @ User f @ '' logged on '' @ srcIp @ ''"'')))\<close>
  apply (simp add: eventUserTemplate_def parse_simps)
  apply (simp add: exec_simps Firewall_value_def Format_date split: option.splits)
  done

lemma eventSystem_tree:
  \<open>\<exists>tree. Parse nm eventSystemTemplate = Inr (Template nm tree) \<and>
     (\<forall>f. execList (Firewall_value f) tree =
       Inr (''date='' @ dateString (UTC (Date f)) @ '' time='' @ Firewall.Timestamp f @
            '' devname="'' @ DevName f @ ''" devid="'' @ DevId f @ ''" logid="'' @
            Itoa (LogId f) @ ''" type="event" subtype="system" level="'' @ Level f @
            ''" vd="'' @ Vd f @ ''" eventtime='' @ Itoa (Unix (Date f)) @ '' tz="'' @
            Timezone f @
            ''" logdesc="FortiSandbox AV database updated" version="1.522479" msg="FortiSandbox AV database updated"''))\<close>
  apply (simp add: eventSystemTemplate_def parse_simps)
  apply (simp add: exec_simps Firewall_value_def Format_date split: option.splits)
  done

lemma utmDns_tree:
  \<open>\<exists>tree. Parse nm utmDnsTemplate = Inr (Template nm tree) \<and>
     (\<forall>f. execList (Firewall_value f) tree =
       (case IP_String (SrcIp f) of
          None \<Rightarrow> Inl (Unsupported ''IP'')
        | Some srcIp \<Rightarrow>
           (case IP_String (DstIp f) of
              None \<Rightarrow> Inl (Unsupported ''IP'')
            | Some dstIp \<Rightarrow>
               Inr (''date='' @ dateString (UTC (Date f)) @ '' time='' @ Firewall.Timestamp f @
                    '' devname="'' @ DevName f @ ''" devid="'' @ DevId f @ ''" logid="'' @
                    Itoa (LogId f) @
                    ''" type="utm" subtype="dns" eventtype="dns-query" level="'' @ Level f @
                    ''" vd="'' @ Vd f @ ''" eventtime='' @ Itoa (Unix (Date f)) @ '' tz="'' @
                    Timezone f @ ''" policyid='' @ Itoa (PolicyId f) @ '' sessionid='' @
                    Itoa (SessionId f) @ '' srcip='' @ srcIp @ '' srcport='' @
                    Itoa (Firewall.SrcPort f) @ '' srcintf="'' @ Interface1 f @
                    ''" srcintfrole="'' @ InterfaceRole1 f @ ''" dstip='' @ dstIp @
                    '' dstport=53 dstintf="'' @ Interface2 f @ ''" dstintfrole="'' @
                    InterfaceRole2 f @ ''" proto='' @ Itoa (Protocol f) @ '' profile="'' @
                    Server f @ ''" xid='' @ Itoa (XId f) @ '' qname="'' @ QueryName f @
                    ''" qtype="'' @ QueryType f @ ''" qtypeval=1 qclass="IN"''))))\<close>
  apply (simp add: utmDnsTemplate_def parse_simps)
  apply (simp add: exec_simps Firewall_value_def Format_date split: option.splits)
  done

lemma trafficForward_tree:
  \<open>\<exists>tree. Parse nm trafficForwardTemplate = Inr (Template nm tree) \<and>
     (\<forall>f. execList (Firewall_value f) tree =
       (case IP_String (SrcIp f) of
          None \<Rightarrow> Inl (Unsupported ''IP'')
        | Some srcIp \<Rightarrow>
           (case IP_String (DstIp f) of
              None \<Rightarrow> Inl (Unsupported ''IP'')
            | Some dstIp \<Rightarrow>
               Inr (''date='' @ dateString (UTC (Date f)) @ '' time='' @ Firewall.Timestamp f @
                    '' devname="'' @ DevName f @ ''" devid="'' @ DevId f @ ''" logid="'' @
                    Itoa (LogId f) @ ''" type="traffic" subtype="forward" level="'' @ Level f @
                    ''" vd="'' @ Vd f @ ''" eventtime='' @ Itoa (Unix (Date f)) @ '' srcip='' @
                    srcIp @ '' srcport='' @ Itoa (Firewall.SrcPort f) @ '' srcintf="'' @
                    Interface1 f @ ''" srcintfrole="'' @ InterfaceRole1 f @ ''" dstip='' @
                    dstIp @ '' dstport='' @ Itoa (DstPort f) @ '' dstintf="'' @ Interface2 f @
                    ''" dstintfrole="'' @ InterfaceRole2 f @ ''" sessionid='' @
                    Itoa (SessionId f) @ '' proto='' @ Itoa (Protocol f) @ '' action="'' @
                    TrafficAction f @ ''" policyid='' @ Itoa (PolicyId f) @
                    '' policytype="policy" service="SNMP" dstcountry="Reserved" srccountry="Reserved" trandisp="noop" duration='' @
                    Itoa (Duration f) @ '' sentbyte='' @ Itoa (SentBytes f) @ '' rcvdbyte='' @
                    Itoa (SentBytes f) @ '' sentpkt='' @ Itoa (SentPackets f) @
                    '' appcat="unscanned" crscore=30 craction=131072 crlevel="high"''))))\<close>
  apply (simp add: trafficForwardTemplate_def parse_simps)
  apply (simp add: exec_simps Firewall_value_def Format_date split: option.splits)
  done

lemma tmpl_tree:
  \<open>\<exists>tree. Parse nm tmpl = Inr (Template nm tree) \<and>
     (\<forall>c. execList (CEF_value c) tree =
       (case Format (CEF.Timestamp c) (TimeLayout c) of
          None \<Rightarrow> Inl (Unsupported (TimeLayout c))
        | Some ts \<Rightarrow>
           (case IP_String (Addr c) of
              None \<Rightarrow> Inl (Unsupported ''IP'')
            | Some addr \<Rightarrow>
               (case IP_String (SrcAddr c) of
                  None \<Rightarrow> Inl (Unsupported ''IP'')
                | Some srcAddr \<Rightarrow>
                   Inr (ts @ '' <'' @ Facility c @ ''.'' @ Priority c @ ''> '' @ addr @
                        '' CEF:'' @ Itoa (CEFVersion c) @ ''|'' @ Vendor c @ ''|'' @
                        Product c @ ''|'' @ Version c @ ''|'' @ Module c @ ''|'' @
                        Violation c @ ''|'' @ Itoa (Severity c) @ ''|src='' @ srcAddr @ '' '' @
                        (if Geo c = [] then [] else ''geolocation='' @ Geo c @ '' '') @
                        ''spt='' @ Itoa (CEF.SrcPort c) @ '' method='' @ Method c @
                        '' request='' @ Request c @ '' msg='' @ Message c @ '' cn1='' @
                        Itoa (EventID c) @ '' cn2='' @ Itoa (TxID c) @ '' cs1='' @ Profile c @
                        '' cs2='' @ PPEID c @ '' cs3='' @ SessID c @ '' cs4='' @
                        SeverityLabel c @ '' cs5='' @ Itoa (Year c) @ '' '' @
                        (if ViolationCategory c = [] then [] else ''cs6='' @ ViolationCategory c @ '' '') @
                        ''act='' @ Action c)))))\<close>
  apply (simp add: tmpl_def parse_simps)
  apply (simp add: exec_simps CEF_value_def split: option.splits)
  done

section \<open>The lines of a generator whose fields are in their domains\<close>

lemma firewall_tables_nlfree:
  "list_all (\<lambda>s. s \<noteq> [] \<and> nlfree s) devices"
  "list_all (\<lambda>s. s \<noteq> [] \<and> nlfree s) devid"
  "list_all (\<lambda>s. s \<noteq> [] \<and> nlfree s) users"
  "list_all (\<lambda>s. s \<noteq> [] \<and> nlfree s) servers"
  "list_all (\<lambda>s. s \<noteq> [] \<and> nlfree s) interfaces"
  "list_all (\<lambda>s. s \<noteq> [] \<and> nlfree s) roles"
  "list_all (\<lambda>s. s \<noteq> [] \<and> nlfree s) queries"
  "list_all (\<lambda>s. s \<noteq> [] \<and> nlfree s) queryTypes"
  "list_all (\<lambda>s. s \<noteq> [] \<and> nlfree s) levels"
  "list_all (\<lambda>s. s \<noteq> [] \<and> nlfree s) trafficActions"
  by (simp_all add: devices_def devid_def users_def servers_def interfaces_def roles_def
      queries_def queryTypes_def levels_def trafficActions_def newline_def)

lemma cef_tables_nlfree:
  "list_all (\<lambda>s. s \<noteq> [] \<and> nlfree s) facilities"
  "list_all (\<lambda>s. s \<noteq> [] \<and> nlfree s) priorities"
  "list_all (\<lambda>s. s \<noteq> [] \<and> nlfree s) vendors"
  "list_all (\<lambda>s. s \<noteq> [] \<and> nlfree s) products"
  "list_all (\<lambda>s. s \<noteq> [] \<and> nlfree s) versions"
  "list_all (\<lambda>s. s \<noteq> [] \<and> nlfree s) modules"
  "list_all (\<lambda>s. s \<noteq> [] \<and> nlfree s) violations"
  "list_all (\<lambda>s. s \<noteq> [] \<and> nlfree s) methods"
  "list_all (\<lambda>s. s \<noteq> [] \<and> nlfree s) requests"
  "list_all (\<lambda>s. s \<noteq> [] \<and> nlfree s) messages"
  "list_all (\<lambda>s. s \<noteq> [] \<and> nlfree s) profiles"
  "list_all (\<lambda>s. s \<noteq> [] \<and> nlfree s) severityLabels"
  "list_all (\<lambda>s. s \<noteq> [] \<and> nlfree s) actions"
  "list_all (\<lambda>s. s \<noteq> [] \<and> nlfree s) ppeids"
  by (simp_all add: facilities_def priorities_def vendors_def products_def
      versions_def modules_def violations_def methods_def requests_def
      messages_def profiles_def severityLabels_def actions_def
      ppeids_def newline_def upto.simps)

lemma cef_tables_nlfree':
  "list_all nlfree timeLayouts" "list_all nlfree locations" "list_all nlfree violationCategory"
  by (simp_all add: timeLayouts_def locations_def violationCategory_def newline_def)

lemma table_nlfree: "list_all (\<lambda>s. s \<noteq> [] \<and> nlfree s) xs \<Longrightarrow> v \<in> set xs \<Longrightarrow> nlfree v"
  by (simp add: list_all_iff)

lemma table_nlfree': "list_all nlfree xs \<Longrightarrow> v \<in> set xs \<Longrightarrow> nlfree v"
  by (simp add: list_all_iff)

lemma Firewall_valid_nlfree:
  assumes "Firewall_valid f"
  shows "nlfree (Firewall.Timestamp f)" "nlfree (DevName f)" "nlfree (DevId f)"
    "nlfree (Timezone f)" "nlfree (Vd f)" "nlfree (User f)" "nlfree (Server f)"
    "nlfree (Interface1 f)" "nlfree (Interface2 f)" "nlfree (InterfaceRole1 f)"
    "nlfree (InterfaceRole2 f)" "nlfree (QueryName f)" "nlfree (QueryType f)"
    "nlfree (Level f)" "nlfree (TrafficAction f)"
    "\<exists>s. IP_String (SrcIp f) = Some s \<and> nlfree s"
    "\<exists>s. IP_String (DstIp f) = Some s \<and> nlfree s"
  using assms unfolding Firewall_valid_def
  by (auto intro: isClockString_nlfree firewall_tables_nlfree [THEN table_nlfree]
      dest: IP_String_isIPv4 simp: newline_def)

lemma eventUser_line:
  assumes "Parse nm eventUserTemplate = Inr t" "Firewall_valid f"
  shows "\<exists>line. Execute t (Firewall_value f) = Inr line \<and> line \<noteq> [] \<and> nlfree line"
  using eventUser_tree [of nm] assms(1) Firewall_valid_nlfree [OF assms(2)]
  by (clarsimp simp: Execute_def newline_def)

lemma eventSystem_line:
  assumes "Parse nm eventSystemTemplate = Inr t" "Firewall_valid f"
  shows "\<exists>line. Execute t (Firewall_value f) = Inr line \<and> line \<noteq> [] \<and> nlfree line"
  using eventSystem_tree [of nm] assms(1) Firewall_valid_nlfree [OF assms(2)]
  by (clarsimp simp: Execute_def newline_def)

lemma utmDns_line:
  assumes "Parse nm utmDnsTemplate = Inr t" "Firewall_valid f"
  shows "\<exists>line. Execute t (Firewall_value f) = Inr line \<and> line \<noteq> [] \<and> nlfree line"
  using utmDns_tree [of nm] assms(1) Firewall_valid_nlfree [OF assms(2)]
  by (clarsimp simp: Execute_def newline_def)

lemma trafficForward_line:
  assumes "Parse nm trafficForwardTemplate = Inr t" "Firewall_valid f"
  shows "\<exists>line. Execute t (Firewall_value f) = Inr line \<and> line \<noteq> [] \<and> nlfree line"
  using trafficForward_tree [of nm] assms(1) Firewall_valid_nlfree [OF assms(2)]
  by (clarsimp simp: Execute_def newline_def)

lemma CEF_valid_nlfree:
  assumes "CEF_valid c"
  shows "nlfree (Facility c)" "nlfree (Priority c)" "nlfree (Vendor c)" "nlfree (Product c)"
    "nlfree (Version c)" "nlfree (Module c)" "nlfree (Violation c)" "nlfree (Geo c)"
    "nlfree (Method c)" "nlfree (Request c)" "nlfree (Message c)" "nlfree (Profile c)"
    "nlfree (PPEID c)" "nlfree (SessID c)" "nlfree (SeverityLabel c)"
    "nlfree (ViolationCategory c)" "nlfree (Action c)"
    "\<exists>s. IP_String (Addr c) = Some s \<and> nlfree s"
    "\<exists>s. IP_String (SrcAddr c) = Some s \<and> nlfree s"
    "\<exists>s. Format (CEF.Timestamp c) (TimeLayout c) = Some s \<and> s \<noteq> [] \<and> nlfree s"
  using assms unfolding CEF_valid_def
  by (auto intro: cef_tables_nlfree [THEN table_nlfree] cef_tables_nlfree' [THEN table_nlfree']
      list_all_hex_nlfree Format_timeLayouts dest: IP_String_isIPv4)

lemma tmpl_line:
  assumes "Parse nm tmpl = Inr t" "CEF_valid c"
  shows "\<exists>line. Execute t (CEF_value c) = Inr line \<and> line \<noteq> [] \<and> nlfree line"
  using tmpl_tree [of nm] assms(1) CEF_valid_nlfree [OF assms(2)]
  by (clarsimp simp: Execute_def newline_def)

section \<open>Construction and the next record\<close>

lemma Parse_compiles: "(\<exists>t. Parse nm src = Inr t) = compiles src"
  by (simp add: Parse_def compiles_def bindE_def split: sum.splits)

lemma Parse_Inl_compiles: "Parse nm src = Inl e \<Longrightarrow> \<not> compiles src"
  using Parse_compiles [of nm src] by auto

lemma parseTemplates_length:
  "parseTemplates i vs ts = Inr r \<Longrightarrow> length r = length ts + length vs"
  by (induction vs arbitrary: i ts) (auto split: sum.splits)

lemma parseTemplates_compiles:
  "(\<exists>r. parseTemplates i vs ts = Inr r) = list_all compiles vs"
proof (induction vs arbitrary: i ts)
  case Nil
  then show ?case by simp
next
  case (Cons v vs)
  show ?case
  proof (cases "Parse (Itoa (int i)) v")
    case (Inl e)
    then show ?thesis using Parse_Inl_compiles [OF Inl] by simp
  next
    case (Inr t)
    then have "compiles v" using Parse_compiles by blast
    then show ?thesis using Inr Cons.IH [of "Suc i" "ts @ [t]"] by simp
  qed
qed

lemma parseTemplates_first_error:
  "parseTemplates i vs ts = Inl e \<Longrightarrow>
   \<exists>k < length vs. Parse (Itoa (int (i + k))) (vs ! k) = Inl e \<and> list_all compiles (take k vs)"
proof (induction vs arbitrary: i ts)
  case Nil
  then show ?case by simp
next
  case (Cons v vs)
  show ?case
  proof (cases "Parse (Itoa (int i)) v")
    case (Inl e')
    then have "e' = e" using Cons.prems by simp
    then have "Parse (Itoa (int (i + 0))) ((v # vs) ! 0) = Inl e \<and> list_all compiles (take 0 (v # vs))"
      using Inl by simp
    then show ?thesis by blast
  next
    case (Inr t)
    then have c: "compiles v" using Parse_compiles by blast
    from Inr Cons.prems have "parseTemplates (Suc i) vs (ts @ [t]) = Inl e" by simp
    from Cons.IH [OF this] obtain k where
      k: "k < length vs" "Parse (Itoa (int (Suc i + k))) (vs ! k) = Inl e"
         "list_all compiles (take k vs)" by blast
    then have "Suc k < length (v # vs) \<and> Parse (Itoa (int (i + Suc k))) ((v # vs) ! Suc k) = Inl e
        \<and> list_all compiles (take (Suc k) (v # vs))"
      using c by simp
    then show ?thesis by blast
  qed
qed

lemma firewall_msgTemplates_parse:
  "\<exists>t0 t1 t2 t3. parseTemplates 0 firewall_msgTemplates [] = Inr [t0, t1, t2, t3]
     \<and> Parse (Itoa 0) eventUserTemplate = Inr t0
     \<and> Parse (Itoa 1) eventSystemTemplate = Inr t1
     \<and> Parse (Itoa 2) utmDnsTemplate = Inr t2
     \<and> Parse (Itoa 3) trafficForwardTemplate = Inr t3"
proof -
  obtain t0 where t0: "Parse (Itoa 0) eventUserTemplate = Inr t0"
    using eventUser_tree [of "Itoa 0"] by blast
  obtain t1 where t1: "Parse (Itoa 1) eventSystemTemplate = Inr t1"
    using eventSystem_tree [of "Itoa 1"] by blast
  obtain t2 where t2: "Parse (Itoa 2) utmDnsTemplate = Inr t2"
    using utmDns_tree [of "Itoa 2"] by blast
  obtain t3 where t3: "Parse (Itoa 3) trafficForwardTemplate = Inr t3"
    using trafficForward_tree [of "Itoa 3"] by blast
  have "parseTemplates 0 firewall_msgTemplates [] = Inr [t0, t1, t2, t3]"
    using t0 t1 t2 t3 by (simp add: firewall_msgTemplates_def)
  then show ?thesis using t0 t1 t2 t3 by blast
qed

lemma cef_msgTemplates_parse:
  "\<exists>t0. parseTemplates 0 cef_msgTemplates [] = Inr [t0] \<and> Parse (Itoa 0) tmpl = Inr t0"
proof -
  obtain t0 where t0: "Parse (Itoa 0) tmpl = Inr t0"
    using tmpl_tree [of "Itoa 0"] by blast
  then have "parseTemplates 0 cef_msgTemplates [] = Inr [t0]"
    by (simp add: cef_msgTemplates_def)
  then show ?thesis using t0 by blast
qed

lemma Firewall_randomize_Templates:
  "Firewall_randomize f w = Some (f', w') \<Longrightarrow>
   Templates f' = Templates f \<and> Direction f' = Direction f \<and> ReceivedBytes f' = ReceivedBytes f"
  by (subst (asm) Firewall_randomize_frame) auto

lemma CEF_randomize_templates:
  "CEF_randomize c w = Some (c', w') \<Longrightarrow> templates c' = templates c"
  by (subst (asm) CEF_randomize_frame) auto

lemma firewall_New_from_value:
  "firewall_New_from tmpls cfg w =
     (case Unpack cfg of
        Some msg \<Rightarrow> Some (Inl (ConfigError msg), w)
      | None \<Rightarrow>
          map_option (\<lambda>(f, w'). (case parseTemplates 0 tmpls [] of
                  Inl err \<Rightarrow> Inl err
                | Inr ts \<Rightarrow> Inr (f\<lparr>Templates := ts\<rparr>), w')) (Firewall_randomize Firewall_zero w))"
proof (cases "Unpack cfg")
  case None
  obtain f w' where r: "Firewall_randomize Firewall_zero w = Some (f, w')"
    using Firewall_randomize_valid by blast
  then have "Templates f = []"
    using Firewall_randomize_Templates [OF r] by (simp add: Firewall_zero_def)
  then show ?thesis using None r by (simp add: firewall_New_from_def)
next
  case (Some msg)
  then show ?thesis by (simp add: firewall_New_from_def)
qed

lemma cef_New_from_value:
  "cef_New_from tmpls cfg w =
     (case Unpack cfg of
        Some msg \<Rightarrow> Some (Inl (ConfigError msg), w)
      | None \<Rightarrow>
          map_option (\<lambda>(c, w'). (case parseTemplates 0 tmpls [] of
                  Inl err \<Rightarrow> Inl err
                | Inr ts \<Rightarrow> Inr (c\<lparr>templates := ts\<rparr>), w')) (CEF_randomize CEF_zero w))"
proof (cases "Unpack cfg")
  case None
  obtain c w' where r: "CEF_randomize CEF_zero w = Some (c, w')"
    using CEF_randomize_valid by blast
  then have "templates c = []"
    using CEF_randomize_templates [OF r] by (simp add: CEF_zero_def)
  then show ?thesis using None r by (simp add: cef_New_from_def)
next
  case (Some msg)
  then show ?thesis by (simp add: cef_New_from_def)
qed

lemma Firewall_Next_value:
  "Templates f \<noteq> [] \<Longrightarrow>
   Firewall_Next f w =
     (case Execute (Templates f ! (fst (draw w) mod length (Templates f))) (Firewall_value f) of
        Inl err \<Rightarrow> Some (Inl err, f, snd (draw w))
      | Inr buf \<Rightarrow>
          map_option (\<lambda>(f', w'). (Inr buf, f', w')) (Firewall_randomize f (snd (draw w))))"
  using Firewall_randomize_valid [of f "snd (draw w)"]
  by (auto simp: Firewall_Next_def Intn_pos split: sum.splits)

lemma CEF_Next_value:
  "templates c \<noteq> [] \<Longrightarrow>
   CEF_Next c w =
     (case Execute (templates c ! (fst (draw w) mod length (templates c))) (CEF_value c) of
        Inl err \<Rightarrow> Some (Inl err, c, snd (draw w))
      | Inr buf \<Rightarrow>
          map_option (\<lambda>(c', w'). (Inr buf, c', w')) (CEF_randomize c (snd (draw w))))"
  using CEF_randomize_valid [of c "snd (draw w)"]
  by (auto simp: CEF_Next_def Intn_pos split: sum.splits)

lemma Next_no_templates:
  "Templates f = [] \<Longrightarrow> Firewall_Next f w = None"
  "templates c = [] \<Longrightarrow> CEF_Next c w = None"
  by (simp_all add: Firewall_Next_def CEF_Next_def Intn_def)

section \<open>The invariant of the reachable generators\<close>

lemma Firewall_templates_line:
  assumes "Firewall_valid f" "parseTemplates 0 firewall_msgTemplates [] = Inr ts" "i < 4"
  shows "length ts = 4
    \<and> (\<exists>line. Execute (ts ! i) (Firewall_value f) = Inr line \<and> line \<noteq> [] \<and> nlfree line)"
proof -
  from firewall_msgTemplates_parse assms(2) obtain t0 t1 t2 t3 where
    ts: "ts = [t0, t1, t2, t3]" and
    p: "Parse (Itoa 0) eventUserTemplate = Inr t0" "Parse (Itoa 1) eventSystemTemplate = Inr t1"
       "Parse (Itoa 2) utmDnsTemplate = Inr t2" "Parse (Itoa 3) trafficForwardTemplate = Inr t3"
    by auto
  from assms(3) consider "i = 0" | "i = 1" | "i = 2" | "i = 3" by linarith
  then have "\<exists>line. Execute (ts ! i) (Firewall_value f) = Inr line \<and> line \<noteq> [] \<and> nlfree line"
  proof cases
    case 1
    then show ?thesis using eventUser_line [OF p(1) assms(1)] ts by simp
  next
    case 2
    then show ?thesis using eventSystem_line [OF p(2) assms(1)] ts by simp
  next
    case 3
    then show ?thesis using utmDns_line [OF p(3) assms(1)] ts by simp
  next
    case 4
    then show ?thesis using trafficForward_line [OF p(4) assms(1)] ts by simp
  qed
  then show ?thesis using ts by simp
qed

lemma Firewall_Next_ok:
  assumes "Firewall_valid f" "parseTemplates 0 firewall_msgTemplates [] = Inr (Templates f)"
  shows "\<exists>line f' w'. Firewall_Next f w = Some (Inr line, f', w') \<and> line \<noteq> [] \<and> nlfree line
           \<and> Firewall_valid f' \<and> Templates f' = Templates f"
proof -
  define i where "i = fst (draw w) mod length (Templates f)"
  have len: "length (Templates f) = 4"
    using Firewall_templates_line [OF assms, of 0] by simp
  then have "i < 4" by (simp add: i_def)
  from Firewall_templates_line [OF assms this] obtain line where
    line: "Execute (Templates f ! i) (Firewall_value f) = Inr line" "line \<noteq> []" "nlfree line"
    by blast
  obtain f' w' where r: "Firewall_randomize f (snd (draw w)) = Some (f', w')" "Firewall_valid f'"
    using Firewall_randomize_valid by blast
  have ne: "Templates f \<noteq> []" using len by auto
  have "Firewall_Next f w = Some (Inr line, f', w')"
    using line(1) r(1) by (simp add: Firewall_Next_value [OF ne] i_def [symmetric])
  then show ?thesis
    using line r Firewall_randomize_Templates [OF r(1)] by simp
qed

lemma CEF_Next_ok:
  assumes "CEF_valid c" "parseTemplates 0 cef_msgTemplates [] = Inr (templates c)"
  shows "\<exists>line c' w'. CEF_Next c w = Some (Inr line, c', w') \<and> line \<noteq> [] \<and> nlfree line
           \<and> CEF_valid c' \<and> templates c' = templates c"
proof -
  from cef_msgTemplates_parse assms(2) obtain t0 where
    ts: "templates c = [t0]" and p: "Parse (Itoa 0) tmpl = Inr t0"
    by auto
  from tmpl_line [OF p assms(1)] obtain line where
    line: "Execute t0 (CEF_value c) = Inr line" "line \<noteq> []" "nlfree line"
    by blast
  obtain c' w' where r: "CEF_randomize c (snd (draw w)) = Some (c', w')" "CEF_valid c'"
    using CEF_randomize_valid by blast
  have ne: "templates c \<noteq> []" using ts by auto
  have "CEF_Next c w = Some (Inr line, c', w')"
    using line(1) r(1) ts by (simp add: CEF_Next_value [OF ne])
  then show ?thesis
    using line r CEF_randomize_templates [OF r(1)] by simp
qed

lemma firewall_New_ok:
  assumes "firewall_New cfg w = Some (Inr f, w')"
  shows "Firewall_valid f \<and> parseTemplates 0 firewall_msgTemplates [] = Inr (Templates f)"
proof -
  obtain f0 w0 where r: "Firewall_randomize Firewall_zero w = Some (f0, w0)" "Firewall_valid f0"
    using Firewall_randomize_valid by blast
  obtain ts where ts: "parseTemplates 0 firewall_msgTemplates [] = Inr ts"
    using firewall_msgTemplates_parse by blast
  from assms have "f = f0\<lparr>Templates := ts\<rparr>"
    using r(1) ts by (auto simp: firewall_New_def firewall_New_from_value split: option.splits)
  then show ?thesis using r(2) ts by (simp add: Firewall_valid_def)
qed

lemma cef_New_ok:
  assumes "cef_New cfg w = Some (Inr c, w')"
  shows "CEF_valid c \<and> parseTemplates 0 cef_msgTemplates [] = Inr (templates c)"
proof -
  obtain c0 w0 where r: "CEF_randomize CEF_zero w = Some (c0, w0)" "CEF_valid c0"
    using CEF_randomize_valid by blast
  obtain ts where ts: "parseTemplates 0 cef_msgTemplates [] = Inr ts"
    using cef_msgTemplates_parse by blast
  from assms have "c = c0\<lparr>templates := ts\<rparr>"
    using r(1) ts by (auto simp: cef_New_def cef_New_from_value split: option.splits)
  then show ?thesis using r(2) ts by (simp add: CEF_valid_def)
qed

lemma Firewall_reachable_inv:
  "Firewall_reachable f \<Longrightarrow>
   Firewall_valid f \<and> parseTemplates 0 firewall_msgTemplates [] = Inr (Templates f)"
proof (induction rule: Firewall_reachable.induct)
  case (New cfg w f w')
  then show ?case by (rule firewall_New_ok)
next
  case (Next f w r f' w')
  from Firewall_Next_ok [of f w] Next.IH Next.hyps(2) show ?case by auto
qed

lemma CEF_reachable_inv:
  "CEF_reachable c \<Longrightarrow>
   CEF_valid c \<and> parseTemplates 0 cef_msgTemplates [] = Inr (templates c)"
proof (induction rule: CEF_reachable.induct)
  case (New cfg w c w')
  then show ?case by (rule cef_New_ok)
next
  case (Next c w r c' w')
  from CEF_Next_ok [of c w] Next.IH Next.hyps(2) show ?case by auto
qed

lemma firewall_New_succeeds:
  "Unpack cfg = None \<Longrightarrow> \<exists>f w'. firewall_New cfg w = Some (Inr f, w')"
proof -
  assume u: "Unpack cfg = None"
  obtain f0 w0 where r: "Firewall_randomize Firewall_zero w = Some (f0, w0)"
    using Firewall_randomize_valid by blast
  obtain ts where ts: "parseTemplates 0 firewall_msgTemplates [] = Inr ts"
    using firewall_msgTemplates_parse by blast
  show ?thesis
    using u r ts by (simp add: firewall_New_def firewall_New_from_value)
qed

lemma cef_New_succeeds:
  "Unpack cfg = None \<Longrightarrow> \<exists>c w'. cef_New cfg w = Some (Inr c, w')"
proof -
  assume u: "Unpack cfg = None"
  obtain c0 w0 where r: "CEF_randomize CEF_zero w = Some (c0, w0)"
    using CEF_randomize_valid by blast
  obtain ts where ts: "parseTemplates 0 cef_msgTemplates [] = Inr ts"
    using cef_msgTemplates_parse by blast
  show ?thesis
    using u r ts by (simp add: cef_New_def cef_New_from_value)
qed

lemma nlfree_set: "nlfree s = (newline \<notin> set s)"
  by (auto simp: nlfree_def list_all_iff)

section \<open>The errors of the parser\<close>

lemma lexItems_error: "lexItems b acc s = Inl e \<Longrightarrow> e = TemplateError ''unclosed action''"
  by (induction b acc s rule: lexItems.induct) (auto simp: bindE_def split: if_splits sum.splits)

lemma mapE_error: "mapE g xs = Inl e \<Longrightarrow> \<exists>x \<in> set xs. g x = Inl e"
  by (induction xs) (auto simp: bindE_def split: sum.splits)

lemma parseOperand_error: "parseOperand x = Inl e \<Longrightarrow> e = Unsupported x"
  by (auto simp: parseOperand_def split: if_splits)

lemma parseAction_error:
  "parseAction a = Inl e \<Longrightarrow> (\<exists>m. e = TemplateError m) \<or> (\<exists>m. e = Unsupported m)"
  by (auto simp: parseAction_def bindE_def split: list.splits if_splits sum.splits
      dest!: mapE_error parseOperand_error)

lemma parseItem_error:
  "parseItem i = Inl e \<Longrightarrow> (\<exists>m. e = TemplateError m) \<or> (\<exists>m. e = Unsupported m)"
  by (cases i) (auto simp: parseItem_def dest: parseAction_error)

lemma build_error: "build ts st acc = Inl e \<Longrightarrow> \<exists>m. e = TemplateError m"
  by (induction ts st acc rule: build.induct) auto

lemma Parse_error:
  "Parse nm src = Inl e \<Longrightarrow> (\<exists>m. e = TemplateError m) \<or> (\<exists>m. e = Unsupported m)"
  unfolding Parse_def bindE_def
  by (auto split: sum.splits dest: lexItems_error build_error dest!: mapE_error
      dest: parseItem_error)

lemma declared_templates_compile:
  "list_all compiles firewall_msgTemplates" "list_all compiles cef_msgTemplates"
  using firewall_msgTemplates_parse cef_msgTemplates_parse
    parseTemplates_compiles [of 0 firewall_msgTemplates "[]"]
    parseTemplates_compiles [of 0 cef_msgTemplates "[]"]
  by auto

section \<open>The claims about the random value library and the registry\<close>

text \<open>
  C7. \<^verbatim>\<open>Port\<close> always returns, and the values it returns over all states of the
  random source are exactly the integers from 0 to 65535: every one of them is possible
  and no other is. Counted over the \<open>2 ^ 63\<close> values the source can hold next, every
  port arises from the same number of them, \<open>2 ^ 47\<close>, so that a uniform source gives
  a uniform port.
\<close>

theorem Port_uniform_range:
  "range (\<lambda>w. map_option fst (Port w)) = Some ` {0..65535}
   \<and> (\<forall>v\<in>{0..65535}.
        card {r. r < 2 ^ 63 \<and> map_option fst (Port (w\<lparr>source := (\<lambda>_. r)\<rparr>)) = Some v} = 2 ^ 47)"
proof
  show "range (\<lambda>w. map_option fst (Port w)) = Some ` {0..65535}"
  proof (intro set_eqI iffI)
    fix x assume "x \<in> range (\<lambda>w. map_option fst (Port w))"
    then obtain w where "x = map_option fst (Port w)" by auto
    then have "x = Some (int (source w 0) mod 65536)"
      by (simp add: Port_value)
    moreover have "0 \<le> int (source w 0) mod 65536" "int (source w 0) mod 65536 \<le> 65535"
      by simp_all
    ultimately show "x \<in> Some ` {0..65535}" by auto
  next
    fix x assume "x \<in> Some ` {0..65535::int}"
    then obtain v where v: "x = Some v" "0 \<le> v" "v \<le> 65535" by auto
    define w :: world where
      "w = \<lparr>source = (\<lambda>_. nat v), seeded = (\<lambda>_ _. 0), clock = (\<lambda>_. 0), zone = (\<lambda>_. 0)\<rparr>"
    have "map_option fst (Port w) = Some v"
      using v by (simp add: Port_value w_def)
    then show "x \<in> range (\<lambda>w. map_option fst (Port w))"
      using v(1) by (metis rangeI)
  qed
next
  show "\<forall>v\<in>{0..65535}.
      card {r. r < 2 ^ 63 \<and> map_option fst (Port (w\<lparr>source := (\<lambda>_. r)\<rparr>)) = Some v} = 2 ^ 47"
  proof
    fix v :: int assume "v \<in> {0..65535}"
    then have v: "0 \<le> v" "v \<le> 65535" by simp_all
    have eq: "\<And>r. (int r mod 65536 = v) = (r mod 65536 = nat v)"
      using v by (metis int_nat_eq nat_int zmod_int of_nat_numeral)
    have "{r::nat. r < 2 ^ 63 \<and> map_option fst (Port (w\<lparr>source := (\<lambda>_. r)\<rparr>)) = Some v}
          = {r. r < 65536 * 2 ^ 47 \<and> r mod 65536 = nat v}"
      by (simp add: Port_value eq)
    then show "card {r. r < 2 ^ 63 \<and> map_option fst (Port (w\<lparr>source := (\<lambda>_. r)\<rparr>)) = Some v}
        = 2 ^ 47"
      using residue_class_card [of "nat v" 65536 "2 ^ 47"] v by simp
  qed
qed

theorem Port_uniform_range_witness:
  "(8080 :: int) \<in> {0..65535}
   \<and> Some 8080 \<in> range (\<lambda>w. map_option fst (Port w))
   \<and> card {r. r < 2 ^ 63 \<and>
        map_option fst (Port (\<lparr>source = (\<lambda>_. 0), seeded = (\<lambda>_ _. 0), clock = (\<lambda>_. 0),
          zone = (\<lambda>_. 0)\<rparr>\<lparr>source := (\<lambda>_. r)\<rparr>)) = Some 8080} = 2 ^ 47"
proof -
  have h: "(8080 :: int) \<in> {0..65535}" by simp
  note inst = Port_uniform_range [of "\<lparr>source = (\<lambda>_. 0), seeded = (\<lambda>_ _. 0), clock = (\<lambda>_. 0),
          zone = (\<lambda>_. 0)\<rparr>"]
  from inst have "Some 8080 \<in> range (\<lambda>w. map_option fst (Port w))"
    using h by blast
  moreover from inst have "card {r. r < 2 ^ 63 \<and>
        map_option fst (Port (\<lparr>source = (\<lambda>_. 0), seeded = (\<lambda>_ _. 0), clock = (\<lambda>_. 0),
          zone = (\<lambda>_. 0)\<rparr>\<lparr>source := (\<lambda>_. r)\<rparr>)) = Some 8080} = 2 ^ 47"
    using h by blast
  ultimately show ?thesis using h by blast
qed

text \<open>
  C8. \<^verbatim>\<open>Randomtime\<close> always returns. It reads the clock twice: the first reading
  seeds the random source, the second is the time \<open>now\<close> of the call. The string it
  returns is the wall clock, in the local zone, of an instant \<open>ts\<close> with
  \<open>now - 20 min \<le> ts < now\<close>, written as two digits of the hour, a colon, two digits
  of the minute, a colon and two digits of the second. The offset into the window is the
  first value of the source as reseeded from the first clock reading, and that reseeded
  source, one value further, is what the call leaves behind.
\<close>

theorem Randomtime_recent_window:
  "\<exists>ts h m s.
     Randomtime w =
       Some ([digit_char (nat h div 10), digit_char (nat h mod 10), CHR '':'',
              digit_char (nat m div 10), digit_char (nat m mod 10), CHR '':'',
              digit_char (nat s div 10), digit_char (nat s mod 10)],
             w\<lparr>source := (\<lambda>i. seeded w (UnixNano \<lparr>instant = clock w 0, location = zone w\<rparr>) (Suc i)),
               clock := (\<lambda>i. clock w (Suc (Suc i)))\<rparr>)
     \<and> Time_Clock \<lparr>instant = ts, location = zone w\<rparr> = (h, m, s)
     \<and> 0 \<le> h \<and> h < 24 \<and> 0 \<le> m \<and> m < 60 \<and> 0 \<le> s \<and> s < 60
     \<and> ts = clock w 1 - 20 * Minute
          + int (seeded w (UnixNano \<lparr>instant = clock w 0, location = zone w\<rparr>) 0) mod (20 * Minute)
     \<and> clock w 1 - 20 * Minute \<le> ts \<and> ts < clock w 1"
proof -
  define src where "src = seeded w (word_of_int (clock w 0))"
  define ts where "ts = clock w 1 - 1200000000000 + int (src 0) mod 1200000000000"
  obtain h m s where c: "Time_Clock \<lparr>instant = ts, location = zone w\<rparr> = (h, m, s)"
    by (cases "Time_Clock \<lparr>instant = ts, location = zone w\<rparr>") auto
  note b = Clock_bounds [OF c]
  have "Randomtime w =
       Some (appendInt h 2 @ '':'' @ appendInt m 2 @ '':'' @ appendInt s 2,
             w\<lparr>source := (\<lambda>i. src (Suc i)), clock := (\<lambda>i. clock w (Suc (Suc i)))\<rparr>)"
    using c by (simp add: Randomtime_value Let_def src_def ts_def)
  moreover have "appendInt h 2 = [digit_char (nat h div 10), digit_char (nat h mod 10)]"
    "appendInt m 2 = [digit_char (nat m div 10), digit_char (nat m mod 10)]"
    "appendInt s 2 = [digit_char (nat s div 10), digit_char (nat s mod 10)]"
    using b by (simp_all add: appendInt_two)
  moreover have "0 \<le> int (src 0) mod 1200000000000" "int (src 0) mod 1200000000000 < 1200000000000"
    by simp_all
  then have "clock w 1 - 20 * Minute \<le> ts" "ts < clock w 1"
    by (simp_all add: ts_def Minute_def)
  moreover have "ts = clock w 1 - 20 * Minute
          + int (seeded w (UnixNano \<lparr>instant = clock w 0, location = zone w\<rparr>) 0) mod (20 * Minute)"
    by (simp add: ts_def src_def Minute_def UnixNano_def)
  ultimately show ?thesis
    using c b unfolding src_def UnixNano_def
    by (intro exI [of _ ts] exI [of _ h] exI [of _ m] exI [of _ s]) simp
qed

text \<open>
  C9. Registering two constructors under one identifier leaves the second one, and only
  it, resolvable under that identifier, whatever the registry held before and whatever
  was registered in between under other identifiers: a lookup after any sequence of
  registrations returns the last constructor registered under the identifier. The lookup
  of an identifier that was never registered reports that nothing was found.
\<close>

theorem Registry_last_registration_wins:
  "Lookup (Register ident second (Register ident first reg)) ident = Some second
   \<and> Lookup (registerAll (before @ [(ident, first)] @ between @ [(ident, second)] @ after)) ident
       = (if ident \<in> fst ` set after then map_of (rev after) ident else Some second)
   \<and> (ident \<notin> fst ` set regs \<longrightarrow> Lookup (registerAll regs) ident = None)"
proof (intro conjI impI)
  show "Lookup (Register ident second (Register ident first reg)) ident = Some second"
    by (simp add: Lookup_def Register_def)
next
  show "Lookup (registerAll (before @ [(ident, first)] @ between @ [(ident, second)] @ after)) ident
       = (if ident \<in> fst ` set after then map_of (rev after) ident else Some second)"
  proof (cases "map_of (rev after) ident")
    case None
    then have "ident \<notin> fst ` set after"
      by (simp add: map_of_eq_None_iff)
    then show ?thesis
      using None by (simp add: Lookup_registerAll map_add_def)
  next
    case (Some c)
    then have "ident \<in> fst ` set after"
      by (metis map_of_eq_None_iff option.distinct(1) set_rev)
    then show ?thesis
      using Some by (simp add: Lookup_registerAll map_add_def)
  qed
next
  assume "ident \<notin> fst ` set regs"
  then show "Lookup (registerAll regs) ident = None"
    by (simp add: Lookup_registerAll map_of_eq_None_iff)
qed

theorem Registry_last_registration_wins_witness:
  "''syslog:rfc'' \<notin> fst ` set [(''fortinet:firewall'', 1 :: nat), (''citrix:cef'', 2)]
   \<and> Lookup (registerAll [(''fortinet:firewall'', 1 :: nat), (''citrix:cef'', 2)]) ''syslog:rfc'' = None
   \<and> Lookup (registerAll ([] @ [(''citrix:cef'', 1 :: nat)] @ [(''fortinet:firewall'', 5)]
        @ [(''citrix:cef'', 2)] @ [])) ''citrix:cef'' = Some 2"
proof -
  have a: "''syslog:rfc'' \<notin> fst ` set [(''fortinet:firewall'', 1 :: nat), (''citrix:cef'', 2)]"
    by simp
  have b: "Lookup (registerAll [(''fortinet:firewall'', 1 :: nat), (''citrix:cef'', 2)]) ''syslog:rfc''
      = None"
    using a Registry_last_registration_wins [of "''syslog:rfc''" "2 :: nat" 1 Map.empty "[]"
      "[]" "[]" "[(''fortinet:firewall'', 1 :: nat), (''citrix:cef'', 2)]"]
    by blast
  have "Lookup (registerAll ([] @ [(''citrix:cef'', 1 :: nat)] @ [(''fortinet:firewall'', 5)]
        @ [(''citrix:cef'', 2)] @ [])) ''citrix:cef''
      = (if ''citrix:cef'' \<in> fst ` set ([] :: (string \<times> nat) list)
         then map_of (rev []) ''citrix:cef'' else Some 2)"
    using Registry_last_registration_wins [of "''citrix:cef''" "2 :: nat" 1 Map.empty "[]"
      "[(''fortinet:firewall'', 5)]" "[]" "[]"]
    by blast
  then have c: "Lookup (registerAll ([] @ [(''citrix:cef'', 1 :: nat)] @ [(''fortinet:firewall'', 5)]
        @ [(''citrix:cef'', 2)] @ [])) ''citrix:cef'' = Some 2"
    by (simp del: append.simps)
  show ?thesis using a b c by blast
qed

section \<open>The claims about the generators\<close>

text \<open>
  C3. After construction and after every call of \<^verbatim>\<open>Next\<close>, that is in every
  reachable generator, every field that the randomization assigns lies in its domain:
  a categorical field is a member of its lookup table, none of which is empty, the ports
  are between 0 and 65535, and the severity of the Citrix CEF record is between 1 and 10.
  \<open>Firewall_valid\<close> and \<open>CEF_valid\<close> list the domain of each field.
\<close>

theorem fields_in_declared_domains:
  "(Firewall_reachable f \<longrightarrow>
      Firewall_valid f \<and> Firewall.SrcPort f \<in> {0..65535} \<and> DstPort f \<in> {0..65535})
   \<and> (CEF_reachable c \<longrightarrow>
      CEF_valid c \<and> CEF.SrcPort c \<in> {0..65535} \<and> Severity c \<in> {1..10})
   \<and> [] \<notin> set [devices, devid, users, servers, interfaces, roles, queries, queryTypes, levels,
        trafficActions]
   \<and> protocols \<noteq> []
   \<and> [] \<notin> set [timeLayouts, facilities, priorities, vendors, products, versions, modules,
        violations, locations, methods, requests, messages, profiles, severityLabels,
        violationCategory, actions]"
proof (intro conjI impI)
  assume "Firewall_reachable f"
  then have v: "Firewall_valid f" using Firewall_reachable_inv by blast
  then show "Firewall_valid f" "Firewall.SrcPort f \<in> {0..65535}" "DstPort f \<in> {0..65535}"
    by (simp_all add: Firewall_valid_def)
next
  assume "CEF_reachable c"
  then have v: "CEF_valid c" using CEF_reachable_inv by blast
  then show "CEF_valid c" "CEF.SrcPort c \<in> {0..65535}" "Severity c \<in> {1..10}"
    by (simp_all add: CEF_valid_def)
next
  show "[] \<notin> set [devices, devid, users, servers, interfaces, roles, queries, queryTypes, levels,
        trafficActions]"
    by (simp add: firewall_tables_nonempty [symmetric])
  show "protocols \<noteq> []" by simp
  show "[] \<notin> set [timeLayouts, facilities, priorities, vendors, products, versions, modules,
        violations, locations, methods, requests, messages, profiles, severityLabels,
        violationCategory, actions]"
    by (simp add: cef_tables_nonempty [symmetric])
qed

theorem fields_in_declared_domains_witness:
  "(\<exists>f w1 line f' w2.
      firewall_New (Config None)
        \<lparr>source = (\<lambda>_. 0), seeded = (\<lambda>_ _. 0), clock = (\<lambda>_. 0), zone = (\<lambda>_. 0)\<rparr> = Some (Inr f, w1)
      \<and> Firewall_Next f w1 = Some (Inr line, f', w2)
      \<and> Firewall_reachable f' \<and> Firewall_valid f')
   \<and> (\<exists>c w1 line c' w2.
      cef_New (Config None)
        \<lparr>source = (\<lambda>_. 0), seeded = (\<lambda>_ _. 0), clock = (\<lambda>_. 0), zone = (\<lambda>_. 0)\<rparr> = Some (Inr c, w1)
      \<and> CEF_Next c w1 = Some (Inr line, c', w2)
      \<and> CEF_reachable c' \<and> CEF_valid c')"
proof
  define w0 where "w0 = \<lparr>source = (\<lambda>_. 0 :: nat), seeded = (\<lambda>_ _. 0 :: nat),
    clock = (\<lambda>_. 0 :: int), zone = (\<lambda>_. 0 :: int)\<rparr>"
  obtain f w1 where n: "firewall_New (Config None) w0 = Some (Inr f, w1)"
    using firewall_New_succeeds [of "Config None" w0] by auto
  then have rf: "Firewall_reachable f" by (rule Firewall_reachable.New)
  obtain line f' w2 where x: "Firewall_Next f w1 = Some (Inr line, f', w2)"
    using Firewall_Next_ok [of f w1] Firewall_reachable_inv [OF rf] by blast
  then have rf': "Firewall_reachable f'" using rf by (blast intro: Firewall_reachable.Next)
  then have "Firewall_valid f'" using fields_in_declared_domains [of f'] by blast
  then show "\<exists>f w1 line f' w2.
      firewall_New (Config None)
        \<lparr>source = (\<lambda>_. 0), seeded = (\<lambda>_ _. 0), clock = (\<lambda>_. 0), zone = (\<lambda>_. 0)\<rparr> = Some (Inr f, w1)
      \<and> Firewall_Next f w1 = Some (Inr line, f', w2)
      \<and> Firewall_reachable f' \<and> Firewall_valid f'"
    using n x rf' unfolding w0_def by blast
next
  define w0 where "w0 = \<lparr>source = (\<lambda>_. 0 :: nat), seeded = (\<lambda>_ _. 0 :: nat),
    clock = (\<lambda>_. 0 :: int), zone = (\<lambda>_. 0 :: int)\<rparr>"
  obtain c w1 where n: "cef_New (Config None) w0 = Some (Inr c, w1)"
    using cef_New_succeeds [of "Config None" w0] by auto
  then have rc: "CEF_reachable c" by (rule CEF_reachable.New)
  obtain line c' w2 where x: "CEF_Next c w1 = Some (Inr line, c', w2)"
    using CEF_Next_ok [of c w1] CEF_reachable_inv [OF rc] by blast
  then have rc': "CEF_reachable c'" using rc by (blast intro: CEF_reachable.Next)
  then have "CEF_valid c'" using fields_in_declared_domains [of _ c'] by blast
  then show "\<exists>c w1 line c' w2.
      cef_New (Config None)
        \<lparr>source = (\<lambda>_. 0), seeded = (\<lambda>_ _. 0), clock = (\<lambda>_. 0), zone = (\<lambda>_. 0)\<rparr> = Some (Inr c, w1)
      \<and> CEF_Next c w1 = Some (Inr line, c', w2)
      \<and> CEF_reachable c' \<and> CEF_valid c'"
    using n x rc' unfolding w0_def by blast
qed

text \<open>
  C4. For both formats, every call of \<^verbatim>\<open>Next\<close> on a reachable generator returns,
  without error, a sequence of bytes that is not empty and contains no newline.
\<close>

theorem Next_line_nonempty_without_newline:
  "(Firewall_reachable f \<longrightarrow>
      (\<exists>line f' w'. Firewall_Next f w = Some (Inr line, f', w') \<and> line \<noteq> [] \<and> newline \<notin> set line))
   \<and> (CEF_reachable c \<longrightarrow>
      (\<exists>line c' w'. CEF_Next c w = Some (Inr line, c', w') \<and> line \<noteq> [] \<and> newline \<notin> set line))"
proof (intro conjI impI)
  assume "Firewall_reachable f"
  then show "\<exists>line f' w'. Firewall_Next f w = Some (Inr line, f', w') \<and> line \<noteq> [] \<and> newline \<notin> set line"
    using Firewall_Next_ok [of f w] Firewall_reachable_inv [of f] by (auto simp: nlfree_set)
next
  assume "CEF_reachable c"
  then show "\<exists>line c' w'. CEF_Next c w = Some (Inr line, c', w') \<and> line \<noteq> [] \<and> newline \<notin> set line"
    using CEF_Next_ok [of c w] CEF_reachable_inv [of c] by (auto simp: nlfree_set)
qed

theorem Next_line_nonempty_without_newline_witness:
  "(\<exists>f w1 line f' w2.
      firewall_New (Config None)
        \<lparr>source = (\<lambda>_. 0), seeded = (\<lambda>_ _. 0), clock = (\<lambda>_. 0), zone = (\<lambda>_. 0)\<rparr> = Some (Inr f, w1)
      \<and> Firewall_reachable f
      \<and> Firewall_Next f w1 = Some (Inr line, f', w2) \<and> line \<noteq> [] \<and> newline \<notin> set line)
   \<and> (\<exists>c w1 line c' w2.
      cef_New (Config None)
        \<lparr>source = (\<lambda>_. 0), seeded = (\<lambda>_ _. 0), clock = (\<lambda>_. 0), zone = (\<lambda>_. 0)\<rparr> = Some (Inr c, w1)
      \<and> CEF_reachable c
      \<and> CEF_Next c w1 = Some (Inr line, c', w2) \<and> line \<noteq> [] \<and> newline \<notin> set line)"
proof
  define w0 where "w0 = \<lparr>source = (\<lambda>_. 0 :: nat), seeded = (\<lambda>_ _. 0 :: nat),
    clock = (\<lambda>_. 0 :: int), zone = (\<lambda>_. 0 :: int)\<rparr>"
  obtain f w1 where n: "firewall_New (Config None) w0 = Some (Inr f, w1)"
    using firewall_New_succeeds [of "Config None" w0] by auto
  then have rf: "Firewall_reachable f" by (rule Firewall_reachable.New)
  then obtain line f' w2 where
    "Firewall_Next f w1 = Some (Inr line, f', w2) \<and> line \<noteq> [] \<and> newline \<notin> set line"
    using Next_line_nonempty_without_newline [of f w1] by blast
  then show "\<exists>f w1 line f' w2.
      firewall_New (Config None)
        \<lparr>source = (\<lambda>_. 0), seeded = (\<lambda>_ _. 0), clock = (\<lambda>_. 0), zone = (\<lambda>_. 0)\<rparr> = Some (Inr f, w1)
      \<and> Firewall_reachable f
      \<and> Firewall_Next f w1 = Some (Inr line, f', w2) \<and> line \<noteq> [] \<and> newline \<notin> set line"
    using n rf unfolding w0_def by blast
next
  define w0 where "w0 = \<lparr>source = (\<lambda>_. 0 :: nat), seeded = (\<lambda>_ _. 0 :: nat),
    clock = (\<lambda>_. 0 :: int), zone = (\<lambda>_. 0 :: int)\<rparr>"
  obtain c w1 where n: "cef_New (Config None) w0 = Some (Inr c, w1)"
    using cef_New_succeeds [of "Config None" w0] by auto
  then have rc: "CEF_reachable c" by (rule CEF_reachable.New)
  then obtain line c' w2 where
    "CEF_Next c w1 = Some (Inr line, c', w2) \<and> line \<noteq> [] \<and> newline \<notin> set line"
    using Next_line_nonempty_without_newline [of _ w1 c] by blast
  then show "\<exists>c w1 line c' w2.
      cef_New (Config None)
        \<lparr>source = (\<lambda>_. 0), seeded = (\<lambda>_ _. 0), clock = (\<lambda>_. 0), zone = (\<lambda>_. 0)\<rparr> = Some (Inr c, w1)
      \<and> CEF_reachable c
      \<and> CEF_Next c w1 = Some (Inr line, c', w2) \<and> line \<noteq> [] \<and> newline \<notin> set line"
    using n rc unfolding w0_def by blast
qed

text \<open>
  C5. A constructor always returns. It returns an error, and no generator, exactly when
  the configuration does not unpack or one of the template sources does not parse: in the
  first case the error is the configuration error and the environment is untouched, in the
  second it is the error of the first template that does not parse, a template error (or,
  for a source outside the embedded fragment of the template language, the marker of
  that). When it returns a generator, the record comes from one pass of randomization
  over the zero record, so that every field is in its domain, and the templates are the
  parsed sources. The declared templates of both formats parse, so that the constructors
  of the program fail on a configuration error only.
\<close>

theorem New_fails_on_config_or_template_error_only:
  "((\<exists>r w'. firewall_New_from tmpls cfg w = Some (r, w'))
    \<and> ((\<exists>e w'. firewall_New_from tmpls cfg w = Some (Inl e, w'))
         = (Unpack cfg \<noteq> None \<or> \<not> list_all compiles tmpls))
    \<and> (\<forall>msg. Unpack cfg = Some msg \<longrightarrow>
         firewall_New_from tmpls cfg w = Some (Inl (ConfigError msg), w))
    \<and> (Unpack cfg = None \<and> \<not> list_all compiles tmpls \<longrightarrow>
         (\<exists>k e w'. k < length tmpls \<and> list_all compiles (take k tmpls)
            \<and> Parse (Itoa (int k)) (tmpls ! k) = Inl e
            \<and> ((\<exists>m. e = TemplateError m) \<or> (\<exists>m. e = Unsupported m))
            \<and> firewall_New_from tmpls cfg w = Some (Inl e, w')))
    \<and> (\<forall>f w'. firewall_New_from tmpls cfg w = Some (Inr f, w') \<longrightarrow>
         (\<exists>f0 ts. Firewall_randomize Firewall_zero w = Some (f0, w')
            \<and> parseTemplates 0 tmpls [] = Inr ts \<and> length ts = length tmpls
            \<and> f = f0\<lparr>Templates := ts\<rparr> \<and> Firewall_valid f)))
   \<and> ((\<exists>r w'. cef_New_from tmpls cfg w = Some (r, w'))
    \<and> ((\<exists>e w'. cef_New_from tmpls cfg w = Some (Inl e, w'))
         = (Unpack cfg \<noteq> None \<or> \<not> list_all compiles tmpls))
    \<and> (\<forall>msg. Unpack cfg = Some msg \<longrightarrow>
         cef_New_from tmpls cfg w = Some (Inl (ConfigError msg), w))
    \<and> (Unpack cfg = None \<and> \<not> list_all compiles tmpls \<longrightarrow>
         (\<exists>k e w'. k < length tmpls \<and> list_all compiles (take k tmpls)
            \<and> Parse (Itoa (int k)) (tmpls ! k) = Inl e
            \<and> ((\<exists>m. e = TemplateError m) \<or> (\<exists>m. e = Unsupported m))
            \<and> cef_New_from tmpls cfg w = Some (Inl e, w')))
    \<and> (\<forall>c w'. cef_New_from tmpls cfg w = Some (Inr c, w') \<longrightarrow>
         (\<exists>c0 ts. CEF_randomize CEF_zero w = Some (c0, w')
            \<and> parseTemplates 0 tmpls [] = Inr ts \<and> length ts = length tmpls
            \<and> c = c0\<lparr>templates := ts\<rparr> \<and> CEF_valid c)))
   \<and> list_all compiles firewall_msgTemplates \<and> list_all compiles cef_msgTemplates
   \<and> ((\<exists>e w'. firewall_New cfg w = Some (Inl e, w')) = (Unpack cfg \<noteq> None))
   \<and> ((\<exists>e w'. cef_New cfg w = Some (Inl e, w')) = (Unpack cfg \<noteq> None))"
proof -
  have fw: "\<And>tmpls. (\<exists>r w'. firewall_New_from tmpls cfg w = Some (r, w'))
       \<and> ((\<exists>e w'. firewall_New_from tmpls cfg w = Some (Inl e, w'))
            = (Unpack cfg \<noteq> None \<or> \<not> list_all compiles tmpls))
       \<and> (\<forall>msg. Unpack cfg = Some msg \<longrightarrow>
            firewall_New_from tmpls cfg w = Some (Inl (ConfigError msg), w))
       \<and> (Unpack cfg = None \<and> \<not> list_all compiles tmpls \<longrightarrow>
            (\<exists>k e w'. k < length tmpls \<and> list_all compiles (take k tmpls)
               \<and> Parse (Itoa (int k)) (tmpls ! k) = Inl e
               \<and> ((\<exists>m. e = TemplateError m) \<or> (\<exists>m. e = Unsupported m))
               \<and> firewall_New_from tmpls cfg w = Some (Inl e, w')))
       \<and> (\<forall>f w'. firewall_New_from tmpls cfg w = Some (Inr f, w') \<longrightarrow>
            (\<exists>f0 ts. Firewall_randomize Firewall_zero w = Some (f0, w')
               \<and> parseTemplates 0 tmpls [] = Inr ts \<and> length ts = length tmpls
               \<and> f = f0\<lparr>Templates := ts\<rparr> \<and> Firewall_valid f))"
  proof -
    fix tmpls
    show "(\<exists>r w'. firewall_New_from tmpls cfg w = Some (r, w'))
       \<and> ((\<exists>e w'. firewall_New_from tmpls cfg w = Some (Inl e, w'))
            = (Unpack cfg \<noteq> None \<or> \<not> list_all compiles tmpls))
       \<and> (\<forall>msg. Unpack cfg = Some msg \<longrightarrow>
            firewall_New_from tmpls cfg w = Some (Inl (ConfigError msg), w))
       \<and> (Unpack cfg = None \<and> \<not> list_all compiles tmpls \<longrightarrow>
            (\<exists>k e w'. k < length tmpls \<and> list_all compiles (take k tmpls)
               \<and> Parse (Itoa (int k)) (tmpls ! k) = Inl e
               \<and> ((\<exists>m. e = TemplateError m) \<or> (\<exists>m. e = Unsupported m))
               \<and> firewall_New_from tmpls cfg w = Some (Inl e, w')))
       \<and> (\<forall>f w'. firewall_New_from tmpls cfg w = Some (Inr f, w') \<longrightarrow>
            (\<exists>f0 ts. Firewall_randomize Firewall_zero w = Some (f0, w')
               \<and> parseTemplates 0 tmpls [] = Inr ts \<and> length ts = length tmpls
               \<and> f = f0\<lparr>Templates := ts\<rparr> \<and> Firewall_valid f))"
    proof -
      obtain f0 w0 where r: "Firewall_randomize Firewall_zero w = Some (f0, w0)" "Firewall_valid f0"
        using Firewall_randomize_valid by blast
      have v: "\<And>ts. Firewall_valid (f0\<lparr>Templates := ts\<rparr>)"
        using r(2) by (simp add: Firewall_valid_def)
      show ?thesis
      proof (cases "Unpack cfg")
        case (Some msg)
        then show ?thesis by (simp add: firewall_New_from_value)
      next
        case None
        show ?thesis
        proof (cases "parseTemplates 0 tmpls []")
          case (Inl e)
          then have nc: "\<not> list_all compiles tmpls"
            using parseTemplates_compiles [of 0 tmpls "[]"] by auto
          from parseTemplates_first_error [OF Inl] obtain k where
            k: "k < length tmpls" "Parse (Itoa (int k)) (tmpls ! k) = Inl e"
               "list_all compiles (take k tmpls)" by auto
          have "firewall_New_from tmpls cfg w = Some (Inl e, w0)"
            using None r(1) Inl by (simp add: firewall_New_from_value)
          then show ?thesis
            using None nc k Parse_error [OF k(2)] by auto
        next
          case (Inr ts)
          then have c: "list_all compiles tmpls"
            using parseTemplates_compiles [of 0 tmpls "[]"] by auto
          have "firewall_New_from tmpls cfg w = Some (Inr (f0\<lparr>Templates := ts\<rparr>), w0)"
            using None r(1) Inr by (simp add: firewall_New_from_value)
          then show ?thesis
            using None c r(1) Inr v parseTemplates_length [OF Inr] by auto
        qed
      qed
    qed
  qed
  have cef: "\<And>tmpls. (\<exists>r w'. cef_New_from tmpls cfg w = Some (r, w'))
       \<and> ((\<exists>e w'. cef_New_from tmpls cfg w = Some (Inl e, w'))
            = (Unpack cfg \<noteq> None \<or> \<not> list_all compiles tmpls))
       \<and> (\<forall>msg. Unpack cfg = Some msg \<longrightarrow>
            cef_New_from tmpls cfg w = Some (Inl (ConfigError msg), w))
       \<and> (Unpack cfg = None \<and> \<not> list_all compiles tmpls \<longrightarrow>
            (\<exists>k e w'. k < length tmpls \<and> list_all compiles (take k tmpls)
               \<and> Parse (Itoa (int k)) (tmpls ! k) = Inl e
               \<and> ((\<exists>m. e = TemplateError m) \<or> (\<exists>m. e = Unsupported m))
               \<and> cef_New_from tmpls cfg w = Some (Inl e, w')))
       \<and> (\<forall>c w'. cef_New_from tmpls cfg w = Some (Inr c, w') \<longrightarrow>
            (\<exists>c0 ts. CEF_randomize CEF_zero w = Some (c0, w')
               \<and> parseTemplates 0 tmpls [] = Inr ts \<and> length ts = length tmpls
               \<and> c = c0\<lparr>templates := ts\<rparr> \<and> CEF_valid c))"
  proof -
    fix tmpls
    show "(\<exists>r w'. cef_New_from tmpls cfg w = Some (r, w'))
       \<and> ((\<exists>e w'. cef_New_from tmpls cfg w = Some (Inl e, w'))
            = (Unpack cfg \<noteq> None \<or> \<not> list_all compiles tmpls))
       \<and> (\<forall>msg. Unpack cfg = Some msg \<longrightarrow>
            cef_New_from tmpls cfg w = Some (Inl (ConfigError msg), w))
       \<and> (Unpack cfg = None \<and> \<not> list_all compiles tmpls \<longrightarrow>
            (\<exists>k e w'. k < length tmpls \<and> list_all compiles (take k tmpls)
               \<and> Parse (Itoa (int k)) (tmpls ! k) = Inl e
               \<and> ((\<exists>m. e = TemplateError m) \<or> (\<exists>m. e = Unsupported m))
               \<and> cef_New_from tmpls cfg w = Some (Inl e, w')))
       \<and> (\<forall>c w'. cef_New_from tmpls cfg w = Some (Inr c, w') \<longrightarrow>
            (\<exists>c0 ts. CEF_randomize CEF_zero w = Some (c0, w')
               \<and> parseTemplates 0 tmpls [] = Inr ts \<and> length ts = length tmpls
               \<and> c = c0\<lparr>templates := ts\<rparr> \<and> CEF_valid c))"
    proof -
      obtain c0 w0 where r: "CEF_randomize CEF_zero w = Some (c0, w0)" "CEF_valid c0"
        using CEF_randomize_valid by blast
      have v: "\<And>ts. CEF_valid (c0\<lparr>templates := ts\<rparr>)"
        using r(2) by (simp add: CEF_valid_def)
      show ?thesis
      proof (cases "Unpack cfg")
        case (Some msg)
        then show ?thesis by (simp add: cef_New_from_value)
      next
        case None
        show ?thesis
        proof (cases "parseTemplates 0 tmpls []")
          case (Inl e)
          then have nc: "\<not> list_all compiles tmpls"
            using parseTemplates_compiles [of 0 tmpls "[]"] by auto
          from parseTemplates_first_error [OF Inl] obtain k where
            k: "k < length tmpls" "Parse (Itoa (int k)) (tmpls ! k) = Inl e"
               "list_all compiles (take k tmpls)" by auto
          have "cef_New_from tmpls cfg w = Some (Inl e, w0)"
            using None r(1) Inl by (simp add: cef_New_from_value)
          then show ?thesis
            using None nc k Parse_error [OF k(2)] by auto
        next
          case (Inr ts)
          then have c: "list_all compiles tmpls"
            using parseTemplates_compiles [of 0 tmpls "[]"] by auto
          have "cef_New_from tmpls cfg w = Some (Inr (c0\<lparr>templates := ts\<rparr>), w0)"
            using None r(1) Inr by (simp add: cef_New_from_value)
          then show ?thesis
            using None c r(1) Inr v parseTemplates_length [OF Inr] by auto
        qed
      qed
    qed
  qed
  have "(\<exists>e w'. firewall_New cfg w = Some (Inl e, w')) = (Unpack cfg \<noteq> None)"
    using fw [of firewall_msgTemplates] declared_templates_compile(1)
    unfolding firewall_New_def by blast
  moreover have "(\<exists>e w'. cef_New cfg w = Some (Inl e, w')) = (Unpack cfg \<noteq> None)"
    using cef [of cef_msgTemplates] declared_templates_compile(2)
    unfolding cef_New_def by blast
  ultimately show ?thesis
    using fw [of tmpls] cef [of tmpls] declared_templates_compile by blast
qed

theorem New_fails_on_config_or_template_error_only_witness:
  "firewall_New_from firewall_msgTemplates (Config (Some ''unknown option''))
      \<lparr>source = (\<lambda>_. 0), seeded = (\<lambda>_ _. 0), clock = (\<lambda>_. 0), zone = (\<lambda>_. 0)\<rparr>
    = Some (Inl (ConfigError ''unknown option''),
        \<lparr>source = (\<lambda>_. 0), seeded = (\<lambda>_ _. 0), clock = (\<lambda>_. 0), zone = (\<lambda>_. 0)\<rparr>)
   \<and> (\<exists>w'. cef_New_from [tmpl, ''src={{.SrcAddr'', ''{{end}}''] (Config None)
      \<lparr>source = (\<lambda>_. 0), seeded = (\<lambda>_ _. 0), clock = (\<lambda>_. 0), zone = (\<lambda>_. 0)\<rparr>
    = Some (Inl (TemplateError ''unclosed action''), w'))
   \<and> (\<exists>f w'. firewall_New_from firewall_msgTemplates (Config None)
      \<lparr>source = (\<lambda>_. 0), seeded = (\<lambda>_ _. 0), clock = (\<lambda>_. 0), zone = (\<lambda>_. 0)\<rparr>
    = Some (Inr f, w') \<and> Firewall_valid f \<and> length (Templates f) = 4)"
proof -
  define w0 where "w0 = \<lparr>source = (\<lambda>_. 0 :: nat), seeded = (\<lambda>_ _. 0 :: nat),
    clock = (\<lambda>_. 0 :: int), zone = (\<lambda>_. 0 :: int)\<rparr>"
  note a = New_fails_on_config_or_template_error_only
    [of firewall_msgTemplates "Config (Some ''unknown option'')" w0]
  have 1: "firewall_New_from firewall_msgTemplates (Config (Some ''unknown option'')) w0
      = Some (Inl (ConfigError ''unknown option''), w0)"
    using a by simp
  note b = New_fails_on_config_or_template_error_only
    [of "[tmpl, ''src={{.SrcAddr'', ''{{end}}'']" "Config None" w0]
  have c1: "compiles tmpl" using declared_templates_compile(2) by (simp add: cef_msgTemplates_def)
  have p: "Parse (Itoa (int 1)) ''src={{.SrcAddr'' = Inl (TemplateError ''unclosed action'')"
    by (simp add: Parse_def textItem_def)
  then have nc: "\<not> compiles ''src={{.SrcAddr''" by (rule Parse_Inl_compiles)
  then have "\<not> list_all compiles [tmpl, ''src={{.SrcAddr'', ''{{end}}'']" by simp
  with b obtain k e w' where
    k: "k < length [tmpl, ''src={{.SrcAddr'', ''{{end}}'']"
       "list_all compiles (take k [tmpl, ''src={{.SrcAddr'', ''{{end}}''])"
       "Parse (Itoa (int k)) ([tmpl, ''src={{.SrcAddr'', ''{{end}}''] ! k) = Inl e"
       "cef_New_from [tmpl, ''src={{.SrcAddr'', ''{{end}}''] (Config None) w0 = Some (Inl e, w')"
    by auto
  have "k = 1"
  proof (rule ccontr)
    assume "k \<noteq> 1"
    then consider "k = 0" | "k = 2" using k(1) by (auto simp: less_Suc_eq)
    then show False
    proof cases
      case 1
      then show ?thesis using k(3) c1 Parse_Inl_compiles by auto
    next
      case 2
      then show ?thesis using k(2) nc by simp
    qed
  qed
  then have "e = TemplateError ''unclosed action''" using k(3) p by simp
  then have 2: "\<exists>w'. cef_New_from [tmpl, ''src={{.SrcAddr'', ''{{end}}''] (Config None) w0
      = Some (Inl (TemplateError ''unclosed action''), w')"
    using k(4) by blast
  note c = New_fails_on_config_or_template_error_only [of firewall_msgTemplates "Config None" w0]
  from c obtain r w' where r: "firewall_New_from firewall_msgTemplates (Config None) w0 = Some (r, w')"
    by blast
  have "\<not> (\<exists>e w'. firewall_New_from firewall_msgTemplates (Config None) w0 = Some (Inl e, w'))"
    using c by simp
  then obtain f where f: "r = Inr f" using r by (cases r) auto
  then have "Firewall_valid f \<and> length (Templates f) = 4"
    using c r by (auto simp: firewall_msgTemplates_def)
  then have 3: "\<exists>f w'. firewall_New_from firewall_msgTemplates (Config None) w0 = Some (Inr f, w')
      \<and> Firewall_valid f \<and> length (Templates f) = 4"
    using r f by blast
  show ?thesis using 1 2 3 unfolding w0_def by blast
qed

end
